theory Spec2Isabelle
  imports Complex_Main "HOL-Library.Sublist" "HOL-Library.Multiset"
begin

section \<open>Python values: exceptions and strings\<close>

text \<open>
  The exceptions that the modelled code can raise. A function that may raise returns
  \<open>py_error + 'a\<close>, \<open>Inl\<close> carrying the exception.
\<close>

datatype py_error =
    HTTPError | RequestException | AttributeError | TypeError | KeyError | IndexError | ValueError

text \<open>
  A Python \<open>str\<close> is modelled by its UTF-8 encoding, a \<open>string\<close> of bytes. Substring
  search, stripping of ASCII characters and splitting at an ASCII character give the same
  result on the encoding as on the code points.
\<close>

definition lstrip :: "string \<Rightarrow> string \<Rightarrow> string" where
  \<comment> \<open>\<open>s.lstrip(chars)\<close>: drops leading characters that belong to the SET \<open>chars\<close>.\<close>
  "lstrip chars s = dropWhile (\<lambda>c. c \<in> set chars) s"

definition rstrip :: "string \<Rightarrow> string \<Rightarrow> string" where
  "rstrip chars s = rev (dropWhile (\<lambda>c. c \<in> set chars) (rev s))"

definition strip :: "string \<Rightarrow> string \<Rightarrow> string" where
  \<comment> \<open>\<open>s.strip(chars)\<close>\<close>
  "strip chars s = rstrip chars (lstrip chars s)"

fun split_char :: "char \<Rightarrow> string \<Rightarrow> string list" where
  \<comment> \<open>\<open>s.split(c)\<close> for a separator of one character\<close>
  "split_char c [] = [[]]"
| "split_char c (x # xs) =
     (if x = c then [] # split_char c xs
      else (case split_char c xs of p # ps \<Rightarrow> (x # p) # ps | [] \<Rightarrow> [[x]]))"

definition item0 :: "'a list \<Rightarrow> py_error + 'a" where
  \<comment> \<open>\<open>xs[0]\<close>\<close>
  "item0 xs = (case xs of [] \<Rightarrow> Inl IndexError | x # _ \<Rightarrow> Inr x)"

definition item :: "'a list \<Rightarrow> nat \<Rightarrow> py_error + 'a" where
  \<comment> \<open>\<open>xs[i]\<close> for a non-negative literal index\<close>
  "item xs i = (if i < length xs then Inr (xs ! i) else Inl IndexError)"

fun str_replace :: "string \<Rightarrow> string \<Rightarrow> string \<Rightarrow> string" where
  \<comment> \<open>\<open>s.replace(old, new)\<close> for a non-empty \<open>old\<close>: every occurrence, left to right\<close>
  "str_replace old new [] = []"
| "str_replace old new (x # xs) =
     (if old \<noteq> [] \<and> prefix old (x # xs)
      then new @ str_replace old new (drop (length old - 1) xs)
      else x # str_replace old new xs)"

definition contains :: "string \<Rightarrow> string \<Rightarrow> bool" where
  \<comment> \<open>\<open>pat in s\<close>; also \<open>Series.str.contains(pat)\<close> on one string when \<open>pat\<close> has no
      regular-expression metacharacter\<close>
  "contains pat s = sublist pat s"

section \<open>Parsed pages (BeautifulSoup)\<close>

text \<open>
  A parsed document is a tree of tags and strings. A tag has a name, the list of its
  classes, its other attributes and its children. A string is either text or one of the
  strings that \<open>.text\<close> leaves out: a comment, and the content of a \<open>script\<close>, \<open>style\<close> or
  \<open>template\<close> element. \<open>find_all\<close> and \<open>find\<close> search the descendants of a node in
  document order; \<open>attrs={'class': c}\<close> selects the tags that have \<open>c\<close> among their classes.
\<close>

datatype html =
    Text string
  | Hidden string
  | Tag string "string list" "(string \<times> string) list" "html list"

fun descendants :: "html \<Rightarrow> html list" where
  "descendants (Text s) = []"
| "descendants (Hidden s) = []"
| "descendants (Tag n cs as ks) = concat (map (\<lambda>k. k # descendants k) ks)"

fun get_text :: "html \<Rightarrow> string" where
  \<comment> \<open>\<open>node.text\<close>, for a node that is not itself a \<open>script\<close>, \<open>style\<close> or \<open>template\<close>
      element: the code takes it of \<open>div\<close>, \<open>p\<close>, \<open>td\<close>, \<open>time\<close> and \<open>xmp\<close> elements\<close>
  "get_text (Text s) = s"
| "get_text (Hidden s) = []"
| "get_text (Tag n cs as ks) = concat (map get_text ks)"

fun get_attr :: "html \<Rightarrow> string \<Rightarrow> py_error + string" where
  \<comment> \<open>\<open>tag[key]\<close>\<close>
  "get_attr (Text s) k = Inl TypeError"
| "get_attr (Hidden s) k = Inl TypeError"
| "get_attr (Tag n cs as ks) k = (case map_of as k of None \<Rightarrow> Inl KeyError | Some v \<Rightarrow> Inr v)"

fun matches :: "string \<Rightarrow> string option \<Rightarrow> html \<Rightarrow> bool" where
  "matches name cls (Text s) = False"
| "matches name cls (Hidden s) = False"
| "matches name cls (Tag n cs as ks) =
     (n = name \<and> (case cls of None \<Rightarrow> True | Some c \<Rightarrow> c \<in> set cs))"

definition find_all :: "string \<Rightarrow> string option \<Rightarrow> html \<Rightarrow> html list" where
  "find_all name cls node = filter (matches name cls) (descendants node)"

definition find :: "string \<Rightarrow> string option \<Rightarrow> html \<Rightarrow> html option" where
  \<comment> \<open>\<open>node.find(name, attrs={'class': cls})\<close>, and \<open>node.name\<close> when \<open>cls\<close> is \<open>None\<close>\<close>
  "find name cls node = (case find_all name cls node of [] \<Rightarrow> None | t # _ \<Rightarrow> Some t)"

section \<open>The fetcher\<close>

text \<open>
  The site is a function from the requests made so far and the requested URL to a
  response: either \<open>requests.get\<close> raises, or it returns a status code and a body, here
  already parsed. The state threaded through the scraper is the list of the URLs
  requested so far.
\<close>

type_synonym url = string

datatype response = Response nat html | NoResponse

type_synonym site = "url list \<Rightarrow> url \<Rightarrow> response"

definition BASE_URL :: string where
  "BASE_URL = ''https://music.bugs.co.kr''"

definition get_soup :: "site \<Rightarrow> url list \<Rightarrow> url \<Rightarrow> (py_error + html) \<times> url list" where
  \<comment> \<open>\<open>raise_for_status\<close> raises for the status codes 400 to 599 only\<close>
  "get_soup w reqs u =
     (case w reqs u of
        NoResponse \<Rightarrow> (Inl RequestException, reqs @ [u])
      | Response status_code soup \<Rightarrow>
          if status_code \<noteq> 200 \<and> 400 \<le> status_code \<and> status_code < 600
          then (Inl HTTPError, reqs @ [u])
          else (Inr soup, reqs @ [u]))"

section \<open>The record extractors of \<open>BugsMusicScraper\<close>\<close>

text \<open>A \<open>DataFrame\<close> built by the scraper is the list of its rows, in order.\<close>

record album_row =
  album_id :: string
  album_title :: string
  artist_name :: string
  release_date :: "html option"
  album_type :: "html option"
  artist_id :: string

record detail_row =
  d_album_id :: string
  genre :: string
  style :: string
  distributor :: string
  agency :: string
  total_duration :: string
  thumbnail :: string

record track_row =
  t_album_id :: string
  track_id :: string
  track_title :: string

record lyrics_row =
  l_track_id :: string
  duration :: string
  lyrics :: string

fun for_each :: "('a \<Rightarrow> py_error + 'b) \<Rightarrow> 'a list \<Rightarrow> py_error + 'b list" where
  \<comment> \<open>a \<open>for\<close> loop that appends one result per item; an exception ends it\<close>
  "for_each f [] = Inr []"
| "for_each f (x # xs) =
     (case f x of
        Inl e \<Rightarrow> Inl e
      | Inr y \<Rightarrow> (case for_each f xs of Inl e \<Rightarrow> Inl e | Inr ys \<Rightarrow> Inr (y # ys)))"

definition whitespace :: "string list" where
  \<comment> \<open>the UTF-8 encodings of the code points for which \<open>str.isspace\<close> holds\<close>
  "whitespace =
     map (\<lambda>c. [c]) [CHR 0x09, CHR 0x0A, CHR 0x0B, CHR 0x0C, CHR 0x0D,
                      CHR 0x1C, CHR 0x1D, CHR 0x1E, CHR 0x1F, CHR 0x20] @
     [[CHR 0xC2, CHR 0x85], [CHR 0xC2, CHR 0xA0], [CHR 0xE1, CHR 0x9A, CHR 0x80]] @
     map (\<lambda>c. [CHR 0xE2, CHR 0x80, c])
       [CHR 0x80, CHR 0x81, CHR 0x82, CHR 0x83, CHR 0x84, CHR 0x85, CHR 0x86, CHR 0x87,
        CHR 0x88, CHR 0x89, CHR 0x8A, CHR 0xA8, CHR 0xA9, CHR 0xAF] @
     [[CHR 0xE2, CHR 0x81, CHR 0x9F], [CHR 0xE3, CHR 0x80, CHR 0x80]]"

function strip_seqs :: "string list \<Rightarrow> string \<Rightarrow> string" where
  \<comment> \<open>drops leading occurrences of the given byte sequences\<close>
  "strip_seqs ws s =
     (case List.find (\<lambda>w. w \<noteq> [] \<and> prefix w s) ws of
        None \<Rightarrow> s
      | Some w \<Rightarrow> strip_seqs ws (drop (length w) s))"
  by pat_completeness auto
termination
  by (relation "measure (\<lambda>(ws, s). length s)") (auto simp: find_Some_iff prefix_def)

definition py_strip :: "string \<Rightarrow> string" where
  \<comment> \<open>\<open>s.strip()\<close>: whitespace removed at both ends\<close>
  "py_strip s = rev (strip_seqs (map rev whitespace) (rev (strip_seqs whitespace s)))"

subsection \<open>\<open>get_artist_albums\<close>\<close>

definition artist_albums_url :: "string \<Rightarrow> url" where
  "artist_albums_url artist = BASE_URL @ ''/artist/'' @ artist @ ''/albums''"

definition album_url :: "string \<Rightarrow> url" where
  "album_url album = BASE_URL @ ''/album/'' @ album"

definition track_url :: "string \<Rightarrow> url" where
  "track_url track = BASE_URL @ ''/track/'' @ track"

definition album_row_of :: "string \<Rightarrow> html \<Rightarrow> py_error + album_row" where
  \<comment> \<open>the body of the loop of \<open>get_artist_albums\<close>, for one \<open>figure.albumInfo\<close>\<close>
  "album_row_of artist album_info =
     (case get_attr album_info ''albumid'' of
        Inl e \<Rightarrow> Inl e
      | Inr albumid \<Rightarrow>
         (case find ''div'' (Some ''albumTitle'') album_info of
            None \<Rightarrow> Inl AttributeError
          | Some title \<Rightarrow>
             (case find ''p'' (Some ''artist'') album_info of
                None \<Rightarrow> Inl AttributeError
              | Some artist_p \<Rightarrow>
                 Inr \<lparr>album_id = albumid,
                      album_title = strip [CHR 0x0A] (get_text title),
                      artist_name = strip [CHR 0x0A] (get_text artist_p),
                      release_date = find ''time'' None album_info,
                      album_type = find ''span'' (Some ''albumType'') album_info,
                      artist_id = artist\<rparr>)))"

definition get_artist_albums ::
  "site \<Rightarrow> url list \<Rightarrow> string \<Rightarrow> (py_error + album_row list) \<times> url list" where
  "get_artist_albums w reqs artist =
     (case get_soup w reqs (artist_albums_url artist) of
        (Inl e, log') \<Rightarrow> (Inl e, log')
      | (Inr soup, log') \<Rightarrow>
          (for_each (album_row_of artist) (find_all ''figure'' (Some ''albumInfo'') soup), log'))"

subsection \<open>\<open>get_album_details\<close>\<close>

definition thumbnail_of :: "html \<Rightarrow> py_error + string" where
  \<comment> \<open>\<open>soup.find('li', attrs={'class': 'big'}).a.img['src']\<close>\<close>
  "thumbnail_of soup =
     (case find ''li'' (Some ''big'') soup of
        None \<Rightarrow> Inl AttributeError
      | Some li \<Rightarrow>
         (case find ''a'' None li of
            None \<Rightarrow> Inl AttributeError
          | Some a \<Rightarrow>
             (case find ''img'' None a of
                None \<Rightarrow> Inl TypeError
              | Some img \<Rightarrow> get_attr img ''src'')))"

definition table_cells :: "html \<Rightarrow> py_error + string list" where
  \<comment> \<open>the inner loop: the stripped texts of \<open>table.find('tbody').find_all('td')\<close>\<close>
  "table_cells table =
     (case find ''tbody'' None table of
        None \<Rightarrow> Inl AttributeError
      | Some tbody \<Rightarrow> Inr (map (\<lambda>cell. py_strip (get_text cell)) (find_all ''td'' None tbody)))"

definition info_cells :: "html \<Rightarrow> py_error + string list" where
  \<comment> \<open>\<open>temp_list\<close> after the two loops\<close>
  "info_cells soup =
     (case for_each table_cells (find_all ''table'' (Some ''info'') soup) of
        Inl e \<Rightarrow> Inl e
      | Inr cs \<Rightarrow> Inr (concat cs))"

definition album_details_of :: "string \<Rightarrow> html \<Rightarrow> py_error + detail_row" where
  \<comment> \<open>the body of the \<open>try\<close> block after the fetch\<close>
  "album_details_of album soup =
     (case thumbnail_of soup of Inl e \<Rightarrow> Inl e | Inr thumb \<Rightarrow>
      (case info_cells soup of Inl e \<Rightarrow> Inl e | Inr temp_list \<Rightarrow>
       (case item temp_list 2 of Inl e \<Rightarrow> Inl e | Inr g \<Rightarrow>
        (case item temp_list 3 of Inl e \<Rightarrow> Inl e | Inr s \<Rightarrow>
         (case item temp_list 5 of Inl e \<Rightarrow> Inl e | Inr d \<Rightarrow>
          (case item temp_list 6 of Inl e \<Rightarrow> Inl e | Inr a \<Rightarrow>
           (case item temp_list 7 of Inl e \<Rightarrow> Inl e | Inr t \<Rightarrow>
              Inr \<lparr>d_album_id = album, genre = g, style = s, distributor = d, agency = a,
                   total_duration = t, thumbnail = thumb\<rparr>)))))))"

definition get_album_details ::
  "site \<Rightarrow> url list \<Rightarrow> string \<Rightarrow> detail_row list option \<times> url list" where
  \<comment> \<open>\<open>except Exception\<close>: every exception of the body gives \<open>None\<close>\<close>
  "get_album_details w reqs album =
     (case get_soup w reqs (album_url album) of
        (Inl e, log') \<Rightarrow> (None, log')
      | (Inr soup, log') \<Rightarrow>
          ((case album_details_of album soup of Inl e \<Rightarrow> None | Inr row \<Rightarrow> Some [row]), log'))"

subsection \<open>\<open>get_album_tracks\<close>\<close>

definition listen_prefix :: string where
  "listen_prefix = ''bugs.wiselog.area('list_tr_09_ab');bugs.music.listen('' @ [CHR 0x27]"

definition extract_track_id :: "string \<Rightarrow> py_error + string" where
  \<comment> \<open>\<open>onclick.lstrip("bugs.wiselog.area('list_tr_09_ab');bugs.music.listen('").split("'")[0]\<close>\<close>
  "extract_track_id onclick = item0 (split_char (CHR 0x27) (lstrip listen_prefix onclick))"

definition track_row_of :: "string \<Rightarrow> html \<Rightarrow> py_error + track_row" where
  \<comment> \<open>the body of the loop, for one \<open>p.title\<close>\<close>
  "track_row_of album elem =
     (case find ''a'' None elem of
        None \<Rightarrow> Inl TypeError
      | Some a \<Rightarrow>
         (case get_attr a ''onclick'' of
            Inl e \<Rightarrow> Inl e
          | Inr onclick \<Rightarrow>
             (case extract_track_id onclick of
                Inl e \<Rightarrow> Inl e
              | Inr tid \<Rightarrow>
                 Inr \<lparr>t_album_id = album, track_id = tid,
                      track_title = str_replace [CHR 0x0A] [] (get_text elem)\<rparr>)))"

definition get_album_tracks ::
  "site \<Rightarrow> url list \<Rightarrow> string \<Rightarrow> track_row list option \<times> url list" where
  "get_album_tracks w reqs album =
     (case get_soup w reqs (album_url album) of
        (Inl e, log') \<Rightarrow> (None, log')
      | (Inr soup, log') \<Rightarrow>
          ((case for_each (track_row_of album) (find_all ''p'' (Some ''title'') soup) of
              Inl e \<Rightarrow> None
            | Inr rows \<Rightarrow> Some rows), log'))"

subsection \<open>\<open>get_track_lyrics\<close>\<close>

definition track_lyrics_of :: "string \<Rightarrow> html \<Rightarrow> py_error + lyrics_row" where
  "track_lyrics_of track soup =
     (case find ''time'' None soup of
        None \<Rightarrow> Inl AttributeError
      | Some tm \<Rightarrow>
         (case find ''div'' (Some ''lyricsContainer'') soup of
            None \<Rightarrow> Inl AttributeError
          | Some container \<Rightarrow>
             (case find ''xmp'' None container of
                None \<Rightarrow> Inl AttributeError
              | Some xmp \<Rightarrow>
                 Inr \<lparr>l_track_id = track, duration = get_text tm,
                      lyrics = str_replace [CHR 0x0D, CHR 0x0A] '' '' (get_text xmp)\<rparr>)))"

definition get_track_lyrics ::
  "site \<Rightarrow> url list \<Rightarrow> string \<Rightarrow> lyrics_row list option \<times> url list" where
  "get_track_lyrics w reqs track =
     (case get_soup w reqs (track_url track) of
        (Inl e, log') \<Rightarrow> (None, log')
      | (Inr soup, log') \<Rightarrow>
          ((case track_lyrics_of track soup of Inl e \<Rightarrow> None | Inr row \<Rightarrow> Some [row]), log'))"

section \<open>The orchestration: \<open>main\<close> of the scraper\<close>

definition pd_concat :: "'a list list \<Rightarrow> py_error + 'a list" where
  \<comment> \<open>\<open>pd.concat(frames)\<close>: an empty list of frames is a \<open>ValueError\<close>\<close>
  "pd_concat frames = (case frames of [] \<Rightarrow> Inl ValueError | _ \<Rightarrow> Inr (concat frames))"

definition merge_left ::
  "('a \<Rightarrow> 'k) \<Rightarrow> ('b \<Rightarrow> 'k) \<Rightarrow> 'a list \<Rightarrow> 'b list \<Rightarrow> ('a \<times> 'b option) list" where
  \<comment> \<open>\<open>left.merge(right, on=key, how='left')\<close>: every left row, in order, with each right
      row of the same key, or with nulls when there is none\<close>
  "merge_left kl kr left right =
     concat (map (\<lambda>l. case filter (\<lambda>r. kr r = kl l) right of
                          [] \<Rightarrow> [(l, None)]
                        | rs \<Rightarrow> map (\<lambda>r. (l, Some r)) rs) left)"

fun drop_duplicates :: "('a \<Rightarrow> 'k) \<Rightarrow> 'a list \<Rightarrow> 'a list" where
  \<comment> \<open>\<open>df.drop_duplicates(subset=key)\<close>: the first row of each key is kept\<close>
  "drop_duplicates key [] = []"
| "drop_duplicates key (x # xs) = x # drop_duplicates key (filter (\<lambda>y. key y \<noteq> key x) xs)"

fun raising_loop ::
  "(url list \<Rightarrow> 'i \<Rightarrow> (py_error + 'a) \<times> url list) \<Rightarrow> url list \<Rightarrow> 'i list
     \<Rightarrow> (py_error + 'a list) \<times> url list" where
  \<comment> \<open>step 1: the result of every call is appended; an exception of a call leaves the loop
      and \<open>main\<close>\<close>
  "raising_loop f reqs [] = (Inr [], reqs)"
| "raising_loop f reqs (i # is) =
     (case f reqs i of
        (Inl e, log') \<Rightarrow> (Inl e, log')
      | (Inr x, log') \<Rightarrow>
          (case raising_loop f log' is of
             (Inl e, log'') \<Rightarrow> (Inl e, log'')
           | (Inr xs, log'') \<Rightarrow> (Inr (x # xs), log'')))"

fun skipping_loop ::
  "(url list \<Rightarrow> 'i \<Rightarrow> 'a option \<times> url list) \<Rightarrow> url list \<Rightarrow> 'i list \<Rightarrow> 'a list \<times> url list" where
  \<comment> \<open>steps 2 to 4: a result that is \<open>None\<close> is not appended\<close>
  "skipping_loop f reqs [] = ([], reqs)"
| "skipping_loop f reqs (i # is) =
     (case f reqs i of
        (r, log') \<Rightarrow>
          (case skipping_loop f log' is of
             (rs, log'') \<Rightarrow> ((case r of None \<Rightarrow> rs | Some x \<Rightarrow> x # rs), log'')))"

definition kw_no_rights :: string where
  \<comment> \<open>the UTF-8 encoding of the four Hangul syllables of the "no rights" marker
      (U+AD8C U+B9AC U+C5C6 U+B294)\<close>
  "kw_no_rights = [CHR 0xEA, CHR 0xB6, CHR 0x8C, CHR 0xEB, CHR 0xA6, CHR 0xAC,
                   CHR 0xEC, CHR 0x97, CHR 0x86, CHR 0xEB, CHR 0x8A, CHR 0x94]"

definition kw_japan :: string where
  \<comment> \<open>the UTF-8 encoding of the two Hangul syllables of the "Japan" marker (U+C77C U+BCF8)\<close>
  "kw_japan = [CHR 0xEC, CHR 0x9D, CHR 0xBC, CHR 0xEB, CHR 0xB3, CHR 0xB8]"

text \<open>
  The local variables of \<open>main\<close> when it is left; a table that was never assigned is
  empty. \<open>raised\<close> is the exception that ended the run, or \<open>None\<close> when the run reached its
  end and wrote \<open>album_final\<close>, \<open>album_track_df\<close> and \<open>lyrics_df\<close> to the three CSV files.
\<close>

record run =
  requests :: "url list"
  album_df_total :: "album_row list"
  album_clean :: "album_row list"
  album_detail_df :: "detail_row list"
  album_final :: "(album_row \<times> detail_row option) list"
  album_track_df :: "track_row list"
  lyrics_df :: "lyrics_row list"
  raised :: "py_error option"

definition run0 :: run where
  "run0 = \<lparr>requests = [], album_df_total = [], album_clean = [], album_detail_df = [],
           album_final = [], album_track_df = [], lyrics_df = [], raised = None\<rparr>"

definition main :: "site \<Rightarrow> string list \<Rightarrow> run" where
  \<comment> \<open>\<open>main\<close> after the artist list has been loaded. An album table without rows has
      \<open>float64\<close> columns, on which \<open>.str\<close> of the first filter raises \<open>AttributeError\<close>.\<close>
  "main w artist_id_list =
     (case raising_loop (get_artist_albums w) [] artist_id_list of
        (Inl e, log1) \<Rightarrow> run0\<lparr>requests := log1, raised := Some e\<rparr>
      | (Inr artist_album_dfs, log1) \<Rightarrow>
     (case pd_concat artist_album_dfs of
        Inl e \<Rightarrow> run0\<lparr>requests := log1, raised := Some e\<rparr>
      | Inr albums \<Rightarrow>
     if albums = [] then run0\<lparr>requests := log1, raised := Some AttributeError\<rparr>
     else
     let c1 = filter (\<lambda>r. \<not> contains kw_no_rights (album_title r)) albums;
         c2 = filter (\<lambda>r. \<not> contains '' OST'' (album_title r)) c1;
         c3 = filter (\<lambda>r. \<not> contains kw_japan (album_title r)) c2;
         cleaned = filter (\<lambda>r. \<not> contains ''Various Artists'' (artist_name r)) c3;
         r1 = run0\<lparr>requests := log1, album_df_total := albums, album_clean := cleaned\<rparr>
     in
     (case skipping_loop (get_album_details w) log1 (map album_id cleaned) of
        (album_details, log2) \<Rightarrow>
     (case pd_concat album_details of
        Inl e \<Rightarrow> r1\<lparr>requests := log2, raised := Some e\<rparr>
      | Inr detail_df \<Rightarrow>
     let merged = drop_duplicates (\<lambda>(a, d). (album_id a, album_title a))
                   (merge_left album_id d_album_id cleaned detail_df);
         r2 = r1\<lparr>requests := log2, album_detail_df := detail_df, album_final := merged\<rparr>
     in
     (case skipping_loop (get_album_tracks w) log2 (map (\<lambda>(a, d). album_id a) merged) of
        (album_tracks, log3) \<Rightarrow>
     (case pd_concat album_tracks of
        Inl e \<Rightarrow> r2\<lparr>requests := log3, raised := Some e\<rparr>
      | Inr track_df \<Rightarrow>
     let r3 = r2\<lparr>requests := log3, album_track_df := track_df\<rparr> in
     (case skipping_loop (get_track_lyrics w) log3 (map track_id track_df) of
        (lyrics_dfs, log4) \<Rightarrow>
     (case pd_concat lyrics_dfs of
        Inl e \<Rightarrow> r3\<lparr>requests := log4, raised := Some e\<rparr>
      | Inr lyr_df \<Rightarrow> r3\<lparr>requests := log4, lyrics_df := lyr_df\<rparr>))))))))"

section \<open>The specification's reading of the track identifier\<close>

definition remove_prefix :: "string \<Rightarrow> string \<Rightarrow> string" where
  "remove_prefix p s = (if prefix p s then drop (length p) s else s)"

definition spec_track_id :: "string \<Rightarrow> string" where
  \<comment> \<open>the fixed prefix removed from the front, then the characters before the next quote\<close>
  "spec_track_id onclick =
     takeWhile (\<lambda>c. c \<noteq> CHR 0x27) (remove_prefix listen_prefix onclick)"

section \<open>Example pages and sites\<close>

definition site_of :: "html \<Rightarrow> site" where
  \<comment> \<open>a site that answers every request with the same page\<close>
  "site_of page = (\<lambda>reqs u. Response 200 page)"

definition page_no_title :: html where
  \<comment> \<open>an album list whose only album block has no \<open>div.albumTitle\<close>\<close>
  "page_no_title =
     Tag ''[document]'' [] []
       [Tag ''figure'' [''albumInfo''] [(''albumid'', ''1001'')]
          [Tag ''p'' [''artist''] [] [Text ''IVE'']]]"

definition page_no_markers :: html where
  \<comment> \<open>an album list whose only album block has neither \<open>time\<close> nor \<open>span.albumType\<close>\<close>
  "page_no_markers =
     Tag ''[document]'' [] []
       [Tag ''figure'' [''albumInfo''] [(''albumid'', ''1001'')]
          [Tag ''div'' [''albumTitle''] [] [Text [CHR 0x0A, CHR ''A'', CHR 0x0A]],
           Tag ''p'' [''artist''] [] [Text ''IVE'']]]"

definition page_album :: html where
  \<comment> \<open>an album page with a thumbnail and an info table of eight cells\<close>
  "page_album =
     Tag ''[document]'' [] []
       [Tag ''li'' [''big''] []
          [Tag ''a'' [] [] [Tag ''img'' [] [(''src'', ''https://image.bugsm.co.kr/1001.jpg'')] []]],
        Tag ''table'' [''info''] []
          [Tag ''tbody'' [] []
             [Tag ''tr'' [] [] [Tag ''td'' [] [] [Text ''IVE'']],
              Tag ''tr'' [] [] [Tag ''td'' [] [] [Text ''EP'']],
              Tag ''tr'' [] [] [Tag ''td'' [] [] [Text '' Dance '']],
              Tag ''tr'' [] [] [Tag ''td'' [] [] [Text ''Pop'']],
              Tag ''tr'' [] [] [Tag ''td'' [] [] [Text ''2022.04.05'']],
              Tag ''tr'' [] [] [Tag ''td'' [] [] [Text ''Kakao'']],
              Tag ''tr'' [] [] [Tag ''td'' [] [] [Text ''Starship'']],
              Tag ''tr'' [] [] [Tag ''td'' [] [] [Text ''09:41'']]]]]"

definition complete_block :: "html \<Rightarrow> bool" where
  \<comment> \<open>an album block that has its \<open>albumid\<close> attribute, its title and its artist\<close>
  "complete_block b =
     (\<not> isl (get_attr b ''albumid'') \<and> find ''div'' (Some ''albumTitle'') b \<noteq> None \<and>
      find ''p'' (Some ''artist'') b \<noteq> None)"

definition page_artist :: html where
  \<comment> \<open>an album list with two albums; the title of the second has the marker \<open>OST\<close>\<close>
  "page_artist =
     Tag ''[document]'' [] []
       [Tag ''figure'' [''albumInfo''] [(''albumid'', ''1001'')]
          [Tag ''div'' [''albumTitle''] [] [Text ''LOVE DIVE''],
           Tag ''p'' [''artist''] [] [Text ''IVE'']],
        Tag ''figure'' [''albumInfo''] [(''albumid'', ''1002'')]
          [Tag ''div'' [''albumTitle''] [] [Text ''Drama OST''],
           Tag ''p'' [''artist''] [] [Text ''IVE'']]]"

definition page_album_tracks :: html where
  \<comment> \<open>the album page \<open>page_album\<close> with one track\<close>
  "page_album_tracks =
     Tag ''[document]'' [] []
       [page_album,
        Tag ''p'' [''title''] []
          [Tag ''a'' [] [(''onclick'', listen_prefix @ ''31234',true);'')] [Text ''LOVE DIVE'']]]"

definition page_track :: html where
  "page_track =
     Tag ''[document]'' [] []
       [Tag ''time'' [] [] [Text ''02:57''],
        Tag ''div'' [''lyricsContainer''] [] [Tag ''xmp'' [] [] [Text ''la la'']]]"

definition site_demo :: site where
  \<comment> \<open>a site that has the pages of artist 80001, of album 1001 and of track 31234, and
      answers 404 to every other request\<close>
  "site_demo = (\<lambda>reqs u.
     if u = artist_albums_url ''80001'' then Response 200 page_artist
     else if u = album_url ''1001'' then Response 200 page_album_tracks
     else if u = track_url ''31234'' then Response 200 page_track
     else Response 404 (Tag ''[document]'' [] [] []))"

definition site_albums_down :: site where
  \<comment> \<open>a site that has the page of artist 80001 only\<close>
  "site_albums_down = (\<lambda>reqs u.
     if u = artist_albums_url ''80001'' then Response 200 page_artist
     else Response 404 (Tag ''[document]'' [] [] []))"

section \<open>What \<open>main\<close> keeps and fetches\<close>

definition excluded :: "album_row \<Rightarrow> bool" where
  \<comment> \<open>the rows that the four filters of \<open>main\<close> remove\<close>
  "excluded r =
     (contains kw_no_rights (album_title r) \<or> contains '' OST'' (album_title r) \<or>
      contains kw_japan (album_title r) \<or> contains ''Various Artists'' (artist_name r))"

definition fetch_order :: "string list \<Rightarrow> run \<Rightarrow> bool" where
  "fetch_order artists r =
     (\<exists>n. requests r =
        map artist_albums_url (take n artists) @
        map album_url (map album_id (album_clean r)) @
        map album_url (map (\<lambda>(a, d). album_id a) (album_final r)) @
        map track_url (map track_id (album_track_df r)))"

definition outputs_from_clean :: "run \<Rightarrow> bool" where
  "outputs_from_clean r =
     ((\<forall>(a, d)\<in>set (album_final r). a \<in> set (album_clean r)) \<and>
      (\<forall>t\<in>set (album_track_df r). \<exists>(a, d)\<in>set (album_final r). t_album_id t = album_id a) \<and>
      (\<forall>l\<in>set (lyrics_df r). \<exists>t\<in>set (album_track_df r). l_track_id l = track_id t))"

section \<open>Tables of the cleaner (pandas)\<close>

text \<open>
  A \<open>DataFrame\<close> of \<open>cleaning.py\<close> is read from a CSV file: it has named columns, each
  with a dtype, and rows that give every column a value. \<open>read_csv\<close> makes a column
  \<open>int64\<close> when all its fields are integers, \<open>float64\<close> when they are numbers and some
  are missing, and \<open>object\<close> (strings, \<open>NaN\<close> for an empty field) otherwise;
  \<open>datetime64\<close> arises from \<open>to_datetime\<close> only. A number is a rational; the values of
  an \<open>int64\<close> column are integers.
\<close>

datatype dtype = Int64 | Float64 | Object | Datetime64

datatype timestamp = Timestamp int int int int
  \<comment> \<open>year, month, day, nanoseconds after midnight\<close>

datatype cell = NaN | Str string | Num rat | PosInf | NegInf | Time timestamp | NaT

record frame =
  columns :: "(string \<times> dtype) list"
  rows :: "(string \<Rightarrow> cell) list"

text \<open>
  What the code takes from pandas without fixing it: how \<open>to_numeric\<close> reads one
  string (an integer literal, a float, an infinity, or no number),
  how \<open>to_datetime\<close> reads one string of a column (the format may be inferred from the
  column), how \<open>str\<close> prints a float and a timestamp, the integer of a timestamp, the
  \<open>float64\<close> that stands for an integer in a \<open>float64\<close> column (it is rounded beyond
  \<open>2^53\<close>), the cast of a finite \<open>float64\<close> to \<open>int64\<close> (towards zero; outside the
  \<open>int64\<close> range the result is the platform's), and whether \<open>merge\<close> accepts two key
  columns (it raises \<open>ValueError\<close> for some pairs of dtypes). The properties below hold
  for every such library.
\<close>

datatype parsed = IntLit int | FloatLit rat | InfLit bool | NotNumeric

record pandas =
  to_numeric_str :: "string \<Rightarrow> parsed"
  to_datetime_str :: "string list \<Rightarrow> string \<Rightarrow> timestamp option"
  float_str :: "rat \<Rightarrow> string"
  time_str :: "timestamp \<Rightarrow> string"
  time_ns :: "timestamp \<Rightarrow> int"
  float64_of_int :: "int \<Rightarrow> rat"
  int64_of_float :: "rat \<Rightarrow> int"
  merge_keys_ok :: "dtype \<Rightarrow> cell list \<Rightarrow> dtype \<Rightarrow> cell list \<Rightarrow> bool"

definition has_col :: "frame \<Rightarrow> string \<Rightarrow> bool" where
  \<comment> \<open>\<open>c in df.columns\<close>\<close>
  "has_col df c = (c \<in> set (map fst (columns df)))"

definition dtype_of :: "frame \<Rightarrow> string \<Rightarrow> dtype option" where
  \<comment> \<open>\<open>df[c].dtype\<close>; \<open>None\<close> when \<open>df[c]\<close> is a \<open>KeyError\<close>\<close>
  "dtype_of df c = map_of (columns df) c"

definition the_dtype :: "frame \<Rightarrow> string \<Rightarrow> dtype" where
  \<comment> \<open>the dtype of a column that the frame has\<close>
  "the_dtype df c = (case dtype_of df c of Some d \<Rightarrow> d | None \<Rightarrow> Object)"

definition column :: "frame \<Rightarrow> string \<Rightarrow> cell list" where
  "column df c = map (\<lambda>r. r c) (rows df)"

definition set_dtype :: "string \<Rightarrow> dtype \<Rightarrow> (string \<times> dtype) list \<Rightarrow> (string \<times> dtype) list" where
  "set_dtype c d cs =
     (if c \<in> set (map fst cs) then map (\<lambda>(n, t). if n = c then (n, d) else (n, t)) cs
      else cs @ [(c, d)])"

definition assign :: "frame \<Rightarrow> string \<Rightarrow> dtype \<Rightarrow> ((string \<Rightarrow> cell) \<Rightarrow> cell) \<Rightarrow> frame" where
  \<comment> \<open>\<open>df[c] = values\<close>, the new value of a row computed from the row; a new column comes
      last\<close>
  "assign df c d g =
     \<lparr>columns = set_dtype c d (columns df), rows = map (\<lambda>r. r(c := g r)) (rows df)\<rparr>"

definition select :: "((string \<Rightarrow> cell) \<Rightarrow> bool) \<Rightarrow> frame \<Rightarrow> frame" where
  \<comment> \<open>\<open>df[mask]\<close>\<close>
  "select keep df = \<lparr>columns = columns df, rows = filter keep (rows df)\<rparr>"

definition is_numeric_dtype :: "dtype \<Rightarrow> bool" where
  "is_numeric_dtype d = (d = Int64 \<or> d = Float64)"

definition str_contains :: "string \<Rightarrow> cell \<Rightarrow> bool" where
  \<comment> \<open>one value of \<open>Series.str.contains(pat, na=False)\<close>, \<open>pat\<close> free of metacharacters\<close>
  "str_contains pat c = (case c of Str s \<Rightarrow> contains pat s | _ \<Rightarrow> False)"

function nat_str :: "nat \<Rightarrow> string" where
  "nat_str n = (if n < 10 then [char_of (48 + n)] else nat_str (n div 10) @ [char_of (48 + n mod 10)])"
  by pat_completeness auto
termination
  by (relation "measure id") auto

definition int_str :: "int \<Rightarrow> string" where
  \<comment> \<open>\<open>str(i)\<close>\<close>
  "int_str i = (if i < 0 then ''-'' @ nat_str (nat (- i)) else nat_str (nat i))"

definition truncate :: "rat \<Rightarrow> int" where
  \<comment> \<open>the cast of a finite float to \<open>int64\<close>: towards zero\<close>
  "truncate q = (if 0 \<le> q then \<lfloor>q\<rfloor> else \<lceil>q\<rceil>)"

definition astype_str :: "pandas \<Rightarrow> dtype \<Rightarrow> cell \<Rightarrow> string" where
  \<comment> \<open>one value of \<open>Series.astype(str)\<close>, for a column of dtype \<open>d\<close>\<close>
  "astype_str pd d c =
     (case c of
        Str s \<Rightarrow> s
      | NaN \<Rightarrow> ''nan''
      | Num q \<Rightarrow> if d = Int64 then int_str (truncate q) else float_str pd q
      | PosInf \<Rightarrow> ''inf''
      | NegInf \<Rightarrow> ''-inf''
      | Time t \<Rightarrow> time_str pd t
      | NaT \<Rightarrow> ''NaT'')"

definition astype_str_col :: "pandas \<Rightarrow> frame \<Rightarrow> string \<Rightarrow> frame" where
  \<comment> \<open>\<open>df[c] = df[c].astype(str)\<close>, for a column that the frame has\<close>
  "astype_str_col pd df c =
     assign df c Object (\<lambda>r. Str (astype_str pd (case dtype_of df c of Some d \<Rightarrow> d | None \<Rightarrow> Object) (r c)))"

definition to_numeric_cell :: "pandas \<Rightarrow> dtype \<Rightarrow> cell \<Rightarrow> cell" where
  \<comment> \<open>one value of \<open>pd.to_numeric(column, errors='coerce')\<close>, when the result has the
      dtype \<open>d\<close>\<close>
  "to_numeric_cell pd d c =
     (case c of
        Str s \<Rightarrow>
          (case to_numeric_str pd s of
             IntLit i \<Rightarrow> if d = Int64 then Num (of_int i) else Num (float64_of_int pd i)
           | FloatLit q \<Rightarrow> Num q
           | InfLit positive \<Rightarrow> if positive then PosInf else NegInf
           | NotNumeric \<Rightarrow> NaN)
      | Time t \<Rightarrow> Num (of_int (time_ns pd t))
      | NaT \<Rightarrow> Num (- (2 ^ 63))
      | _ \<Rightarrow> c)"

definition is_int_lit :: "pandas \<Rightarrow> cell \<Rightarrow> bool" where
  "is_int_lit pd c =
     (case c of
        Str s \<Rightarrow> (case to_numeric_str pd s of IntLit i \<Rightarrow> True | _ \<Rightarrow> False)
      | _ \<Rightarrow> False)"

definition to_numeric_dtype :: "pandas \<Rightarrow> dtype \<Rightarrow> cell list \<Rightarrow> dtype" where
  \<comment> \<open>the dtype of \<open>pd.to_numeric(column, errors='coerce')\<close>\<close>
  "to_numeric_dtype pd d cs =
     (case d of
        Object \<Rightarrow> if list_all (is_int_lit pd) cs then Int64 else Float64
      | Datetime64 \<Rightarrow> Int64
      | _ \<Rightarrow> d)"

definition to_numeric_col :: "pandas \<Rightarrow> frame \<Rightarrow> string \<Rightarrow> frame" where
  \<comment> \<open>\<open>df[c] = pd.to_numeric(df[c], errors='coerce')\<close>, for a column that the frame has\<close>
  "to_numeric_col pd df c =
     (let d = to_numeric_dtype pd (case dtype_of df c of Some d \<Rightarrow> d | None \<Rightarrow> Object)
                (column df c)
      in assign df c d (\<lambda>r. to_numeric_cell pd d (r c)))"

definition dropna :: "frame \<Rightarrow> string \<Rightarrow> frame" where
  \<comment> \<open>\<open>df.dropna(subset=[c])\<close>\<close>
  "dropna df c = select (\<lambda>r. r c \<noteq> NaN \<and> r c \<noteq> NaT) df"

definition is_finite :: "cell \<Rightarrow> bool" where
  "is_finite c = (case c of Num q \<Rightarrow> True | _ \<Rightarrow> False)"

definition wrap64 :: "int \<Rightarrow> int" where
  \<comment> \<open>the \<open>int64\<close> with the bits of an integer\<close>
  "wrap64 i = (i + 2 ^ 63) mod 2 ^ 64 - 2 ^ 63"

definition astype_int64 :: "pandas \<Rightarrow> dtype \<Rightarrow> cell \<Rightarrow> cell" where
  \<comment> \<open>one value of \<open>Series.astype('int64')\<close>, for a column of dtype \<open>d\<close> without missing
      or infinite values: an integer column (\<open>int64\<close>, or \<open>uint64\<close> when a literal is
      \<open>2^63\<close> or more) keeps its bits, a \<open>float64\<close> column is cast\<close>
  "astype_int64 pd d c =
     (case c of
        Num q \<Rightarrow> if d = Int64 then Num (of_int (wrap64 (truncate q)))
                 else Num (of_int (int64_of_float pd q))
      | _ \<Rightarrow> c)"

subsection \<open>\<open>clean_track_ids\<close>\<close>

definition clean_track_ids :: "pandas \<Rightarrow> frame \<Rightarrow> py_error + frame" where
  \<comment> \<open>\<open>.str\<close> is an \<open>AttributeError\<close> on a column that is not \<open>object\<close>. In the \<open>try\<close> block
      only the cast to \<open>int64\<close> can raise, on an infinite value; the column is then
      \<open>float64\<close>, without its missing values, and the \<open>except\<close> block makes it strings.\<close>
  "clean_track_ids pd track_df =
     (case dtype_of track_df ''track_id'' of
        None \<Rightarrow> Inl KeyError
      | Some d \<Rightarrow>
          if d \<noteq> Object then Inl AttributeError
          else
            let login_layer_rows = select (\<lambda>r. str_contains ''howLoginLayer'' (r ''track_id'')) track_df
            in
            if rows login_layer_rows \<noteq> [] \<and> \<not> has_col login_layer_rows ''track_title''
            then Inl KeyError
            else
              let df1 = (if rows login_layer_rows \<noteq> []
                         then select (\<lambda>r. \<not> str_contains ''howLoginLayer'' (r ''track_id'')) track_df
                         else track_df);
                  df2 = to_numeric_col pd df1 ''track_id'';
                  df3 = dropna df2 ''track_id''
              in
              if list_all is_finite (column df3 ''track_id'')
              then Inr (assign df3 ''track_id'' Int64
                          (\<lambda>r. astype_int64 pd (the_dtype df3 ''track_id'') (r ''track_id'')))
              else Inr (assign df3 ''track_id'' Object
                          (\<lambda>r. Str (py_strip (astype_str pd Float64 (r ''track_id''))))))"

subsection \<open>A library instance and tables for the examples\<close>

definition dec_literal :: "string \<Rightarrow> parsed" where
  \<comment> \<open>the numbers of the examples: an unsigned decimal literal is an integer, \<open>inf\<close> is
      infinite; signed literals, decimal points and blanks, which pandas reads too, are not
      read\<close>
  "dec_literal s =
     (if s \<noteq> [] \<and> list_all (\<lambda>c. 48 \<le> (of_char c :: nat) \<and> (of_char c :: nat) \<le> 57) s
      then IntLit (int (foldl (\<lambda>n c. 10 * n + (of_char c - 48)) 0 s))
      else if s = ''inf'' then InfLit True
      else NotNumeric)"

definition iso_date :: "string \<Rightarrow> timestamp option" where
  \<comment> \<open>dates written \<open>YYYY-MM-DD\<close>\<close>
  "iso_date s =
     (case map (\<lambda>p. dec_literal p) (split_char (CHR ''-'') s) of
        [IntLit y, IntLit m, IntLit d] \<Rightarrow>
          if length s = 10 \<and> 1 \<le> m \<and> m \<le> 12 \<and> 1 \<le> d \<and> d \<le> 31
          then Some (Timestamp y m d 0) else None
      | _ \<Rightarrow> None)"

definition pd_demo :: pandas where
  \<comment> \<open>a library for the examples. It agrees with pandas on the values of the example
      tables only: unsigned decimal literals below \<open>2^53\<close>, \<open>inf\<close>, ISO dates, floats that
      are whole numbers. Every other string is no number and no date for it.\<close>
  "pd_demo =
     \<lparr>to_numeric_str = dec_literal,
      to_datetime_str = (\<lambda>col s. iso_date s),
      float_str = (\<lambda>q. int_str (truncate q) @ ''.0''),
      time_str = (\<lambda>t. case t of Timestamp y m d n \<Rightarrow> int_str y @ ''-'' @ int_str m @ ''-'' @ int_str d),
      time_ns = (\<lambda>t. 0),
      float64_of_int = of_int,
      int64_of_float = truncate,
      merge_keys_ok = (\<lambda>dl l dr r. True)\<rparr>"

definition track_row3 :: "cell \<Rightarrow> cell \<Rightarrow> cell \<Rightarrow> string \<Rightarrow> cell" where
  "track_row3 album track title =
     (\<lambda>c. if c = ''album_id'' then album else if c = ''track_id'' then track
          else if c = ''track_title'' then title else NaN)"

definition tracks_raw :: frame where
  \<comment> \<open>a track table as scraped: the second identifier is the login-wall artifact\<close>
  "tracks_raw =
     \<lparr>columns = [(''album_id'', Int64), (''track_id'', Object), (''track_title'', Object)],
      rows = [track_row3 (Num 1001) (Str ''31234'') (Str ''LOVE DIVE''),
              track_row3 (Num 1001) (Str ''howLoginLayer'') (Str ''Royal'')]\<rparr>"

definition info_table :: "string list \<Rightarrow> html" where
  \<comment> \<open>an info table with a body that has one cell per row\<close>
  "info_table cells =
     Tag ''table'' [''info''] []
       [Tag ''tbody'' [] [] (map (\<lambda>c. Tag ''tr'' [] [] [Tag ''td'' [] [] [Text c]]) cells)]"

definition eight_cells :: "string list" where
  "eight_cells = [''IVE'', ''EP'', ''Dance'', ''Pop'', ''2022.04.05'', ''Kakao'', ''Starship'',
                  ''09:41'']"

definition thumbnail_block :: html where
  "thumbnail_block =
     Tag ''li'' [''big''] []
       [Tag ''a'' [] [] [Tag ''img'' [] [(''src'', ''https://image.bugsm.co.kr/1001.jpg'')] []]]"

definition track_block :: html where
  "track_block =
     Tag ''p'' [''title''] []
       [Tag ''a'' [] [(''onclick'', listen_prefix @ ''31234',true);'')] [Text ''LOVE DIVE'']]"

definition page_no_thumbnail :: html where
  \<comment> \<open>an album page with eight info cells and one track, but no \<open>li.big\<close>\<close>
  "page_no_thumbnail = Tag ''[document]'' [] [] [info_table eight_cells, track_block]"

definition page_no_tbody :: html where
  \<comment> \<open>an album page with a thumbnail and eight info cells, and a second info table that
      has no body\<close>
  "page_no_tbody =
     Tag ''[document]'' [] []
       [thumbnail_block, info_table eight_cells,
        Tag ''table'' [''info''] [] [Tag ''tr'' [] [] [Tag ''td'' [] [] [Text ''x'']]]]"

definition page_seven_cells :: html where
  \<comment> \<open>an album page with a thumbnail and seven info cells, in two tables\<close>
  "page_seven_cells =
     Tag ''[document]'' [] []
       [thumbnail_block, info_table (take 4 eight_cells), info_table (take 3 (drop 4 eight_cells))]"

definition site_no_thumbnail :: site where
  \<comment> \<open>the site \<open>site_demo\<close> after the thumbnail has left the album page\<close>
  "site_no_thumbnail = (\<lambda>reqs u.
     if u = artist_albums_url ''80001'' then Response 200 page_artist
     else if u = album_url ''1001'' then Response 200 page_no_thumbnail
     else if u = track_url ''31234'' then Response 200 page_track
     else Response 404 (Tag ''[document]'' [] [] []))"

subsection \<open>\<open>filter_data\<close>\<close>

definition ascii_lower :: string where
  "ascii_lower = ''abcdefghijklmnopqrstuvwxyz''"

definition ascii_upper :: string where
  "ascii_upper = ''ABCDEFGHIJKLMNOPQRSTUVWXYZ''"

definition ci_alts :: "char \<Rightarrow> string list" where
  \<comment> \<open>what a literal of a pattern matches under \<open>re.IGNORECASE\<close>: an ASCII letter matches
      both of its cases; \<open>i\<close> also matches U+0130 and U+0131, \<open>s\<close> U+017F, \<open>k\<close> U+212A\<close>
  "ci_alts c =
     (case map_of (zip (ascii_lower @ ascii_upper)
                       (zip (ascii_lower @ ascii_lower) (ascii_upper @ ascii_upper))) c of
        Some (low, up) \<Rightarrow>
          [[low], [up]] @
          (if low = CHR ''i'' then [[CHR 0xC4, CHR 0xB0], [CHR 0xC4, CHR 0xB1]]
           else if low = CHR ''s'' then [[CHR 0xC5, CHR 0xBF]]
           else if low = CHR ''k'' then [[CHR 0xE2, CHR 0x84, CHR 0xAA]]
           else [])
      | None \<Rightarrow> [[c]])"

fun match_here :: "string \<Rightarrow> string \<Rightarrow> bool" where
  \<comment> \<open>an alternative of a pattern, made of literals and \<open>.\<close>, matches at the start of \<open>s\<close>;
      \<open>.\<close> is one code point that is not a line feed\<close>
  "match_here [] s = True"
| "match_here (p # ps) s =
     (if p = CHR ''.'' then
        (case s of
           [] \<Rightarrow> False
         | x # xs \<Rightarrow>
             x \<noteq> CHR 0x0A \<and>
             match_here ps (dropWhile (\<lambda>b. 128 \<le> (of_char b :: nat) \<and> (of_char b :: nat) < 192) xs))
      else list_ex (\<lambda>a. if prefix a s then match_here ps (drop (length a) s) else False)
             (ci_alts p))"

definition re_search_ci :: "string \<Rightarrow> string \<Rightarrow> bool" where
  \<comment> \<open>\<open>re.search(pat, s, re.IGNORECASE)\<close> for a pattern of alternatives separated by \<open>|\<close>\<close>
  "re_search_ci pat s =
     list_ex (\<lambda>alt. list_ex (match_here alt) (suffixes s)) (split_char (CHR ''|'') pat)"

definition str_contains_ci :: "string \<Rightarrow> cell \<Rightarrow> bool" where
  \<comment> \<open>one value of \<open>Series.str.contains(pat, case=False, na=False)\<close>\<close>
  "str_contains_ci pat c = (case c of Str s \<Rightarrow> re_search_ci pat s | _ \<Rightarrow> False)"

definition album_patterns :: string where
  "album_patterns = ''remix|japan|'' @ kw_japan @ ''|inst|repackage|chinese| ver.''"

definition song_patterns :: string where
  "song_patterns = kw_no_rights @ ''|remix|japan|chinese| inst | ver.''"

definition str_column :: "frame \<Rightarrow> string \<Rightarrow> ((string \<Rightarrow> cell) \<Rightarrow> bool) \<Rightarrow> py_error + frame" where
  \<comment> \<open>a selection whose mask uses \<open>df[c].str\<close>: an \<open>AttributeError\<close> unless the column is
      \<open>object\<close>\<close>
  "str_column df c keep =
     (if dtype_of df c \<noteq> Some Object then Inl AttributeError else Inr (select keep df))"

definition drop_various_artists :: "frame \<Rightarrow> py_error + frame" where
  "drop_various_artists df =
     (if has_col df ''artist_name''
      then Inr (select (\<lambda>r. r ''artist_name'' \<noteq> Str ''Various Artists'') df)
      else Inr df)"

definition drop_empty_lyrics :: "frame \<Rightarrow> py_error + frame" where
  \<comment> \<open>\<open>df[df['lyrics'].str.strip() != '']\<close>, then \<open>df[df['lyrics'] != 'nan']\<close>\<close>
  "drop_empty_lyrics df =
     (if has_col df ''lyrics''
      then str_column df ''lyrics''
             (\<lambda>r. (case r ''lyrics'' of Str s \<Rightarrow> py_strip s \<noteq> [] | _ \<Rightarrow> True) \<and>
                  r ''lyrics'' \<noteq> Str ''nan'')
      else Inr df)"

definition drop_album_titles :: "frame \<Rightarrow> py_error + frame" where
  "drop_album_titles df =
     (if has_col df ''album_title''
      then str_column df ''album_title'' (\<lambda>r. \<not> str_contains_ci album_patterns (r ''album_title''))
      else Inr df)"

definition drop_track_titles :: "frame \<Rightarrow> py_error + frame" where
  "drop_track_titles df =
     (if has_col df ''track_title''
      then str_column df ''track_title'' (\<lambda>r. \<not> str_contains_ci song_patterns (r ''track_title''))
      else Inr df)"

definition filter_data :: "frame \<Rightarrow> py_error + frame" where
  "filter_data df =
     (case drop_various_artists df of Inl e \<Rightarrow> Inl e | Inr df1 \<Rightarrow>
      (case drop_empty_lyrics df1 of Inl e \<Rightarrow> Inl e | Inr df2 \<Rightarrow>
       (case drop_album_titles df2 of Inl e \<Rightarrow> Inl e | Inr df3 \<Rightarrow>
          drop_track_titles df3)))"

datatype filter_step = VariousArtists | EmptyLyrics | AlbumTitles | TrackTitles

fun apply_step :: "filter_step \<Rightarrow> frame \<Rightarrow> py_error + frame" where
  "apply_step VariousArtists = drop_various_artists"
| "apply_step EmptyLyrics = drop_empty_lyrics"
| "apply_step AlbumTitles = drop_album_titles"
| "apply_step TrackTitles = drop_track_titles"

fun run_steps :: "filter_step list \<Rightarrow> frame \<Rightarrow> py_error + frame" where
  \<comment> \<open>the removal steps of \<open>filter_data\<close>, taken in the given order\<close>
  "run_steps [] df = Inr df"
| "run_steps (st # sts) df =
     (case apply_step st df of Inl e \<Rightarrow> Inl e | Inr df' \<Rightarrow> run_steps sts df')"


text \<open>The column, the use of \<open>.str\<close> and the rows kept, for each removal step.\<close>

fun step_column :: "filter_step \<Rightarrow> string" where
  "step_column VariousArtists = ''artist_name''"
| "step_column EmptyLyrics = ''lyrics''"
| "step_column AlbumTitles = ''album_title''"
| "step_column TrackTitles = ''track_title''"

fun step_keep :: "filter_step \<Rightarrow> (string \<Rightarrow> cell) \<Rightarrow> bool" where
  "step_keep VariousArtists r = (r ''artist_name'' \<noteq> Str ''Various Artists'')"
| "step_keep EmptyLyrics r =
     ((case r ''lyrics'' of Str s \<Rightarrow> py_strip s \<noteq> [] | _ \<Rightarrow> True) \<and> r ''lyrics'' \<noteq> Str ''nan'')"
| "step_keep AlbumTitles r = (\<not> str_contains_ci album_patterns (r ''album_title''))"
| "step_keep TrackTitles r = (\<not> str_contains_ci song_patterns (r ''track_title''))"

definition step_raises :: "frame \<Rightarrow> filter_step \<Rightarrow> bool" where
  "step_raises df st =
     (has_col df (step_column st) \<and> st \<noteq> VariousArtists \<and>
      dtype_of df (step_column st) \<noteq> Some Object)"

definition row4 :: "string \<Rightarrow> string \<Rightarrow> string \<Rightarrow> string \<Rightarrow> string \<Rightarrow> cell" where
  "row4 album artist track lyr =
     (\<lambda>c. if c = ''album_title'' then Str album else if c = ''artist_name'' then Str artist
          else if c = ''track_title'' then Str track else if c = ''lyrics'' then Str lyr
          else NaN)"

definition merged_demo :: frame where
  \<comment> \<open>a merged table: only its first row passes the four removal steps\<close>
  "merged_demo =
     \<lparr>columns = [(''album_title'', Object), (''artist_name'', Object),
                 (''track_title'', Object), (''lyrics'', Object)],
      rows = [row4 ''Up'' ''IVE'' ''Go'' ''la'',
              row4 ''Remix'' ''IVE'' ''Go'' ''la'',
              row4 ''Up'' ''Various Artists'' ''Go'' ''la'',
              row4 ''Up'' ''IVE'' ''Go'' ''nan'',
              row4 ''Up'' ''IVE'' ''Go Ver2'' ''la'']\<rparr>"

section \<open>Properties of the extractors\<close>

lemma split_char_not_Nil: "split_char c s \<noteq> []"
  by (induction s) (auto split: list.splits)

lemma extract_track_id_total: "\<exists>t. extract_track_id s = Inr t"
  using split_char_not_Nil[of "CHR 0x27" "lstrip listen_prefix s"]
  by (auto simp: extract_track_id_def item0_def split: list.splits)

text \<open>
  C4. The track identifier is said to be what follows the fixed prefix of the
  \<open>onclick\<close> value, up to the next quote. \<open>lstrip\<close> takes its argument as a set of
  characters: it goes on into the identifier while its digits are \<open>0\<close> or \<open>9\<close>, both of
  which occur in the prefix. For the identifier \<open>90210\<close> the code gives \<open>210\<close>.
\<close>

theorem extract_track_id_eats_leading_digits:
  "extract_track_id (listen_prefix @ ''90210',true);'') = Inr ''210'' \<and>
   spec_track_id (listen_prefix @ ''90210',true);'') = ''90210''"
  by (simp add: extract_track_id_def spec_track_id_def remove_prefix_def listen_prefix_def
        lstrip_def item0_def)

lemma for_each_all_Inr:
  "(\<forall>x\<in>set xs. \<exists>y. f x = Inr y) \<Longrightarrow> for_each f xs = Inr (map (\<lambda>x. projr (f x)) xs)"
  by (induction xs) auto

lemma for_each_Inr_elem:
  "for_each f xs = Inr ys \<Longrightarrow> \<forall>x\<in>set xs. \<exists>y. f x = Inr y"
  by (induction xs arbitrary: ys) (auto split: sum.splits)

lemma for_each_some_Inl:
  "\<exists>x\<in>set xs. \<exists>e. f x = Inl e \<Longrightarrow> \<exists>e. for_each f xs = Inl e"
  by (cases "for_each f xs") (auto dest!: for_each_Inr_elem)

lemma for_each_Inl_elem:
  "for_each f xs = Inl e \<Longrightarrow> \<exists>x\<in>set xs. f x = Inl e"
  by (induction xs) (auto split: sum.splits)

text \<open>
  C2. \<open>get_artist_albums\<close> is said never to raise on an album block that lacks its title,
  its artist, its release marker or its type marker, and to put a placeholder in the row.
  That is what it does for the two markers, which it stores as \<open>find\<close> returns them: the
  row has \<open>None\<close>. For the title and the artist it takes \<open>.text\<close> of what \<open>find\<close>
  returns: an album block without \<open>div.albumTitle\<close> makes the call raise
  \<open>AttributeError\<close>, which nothing catches, and \<open>main\<close> ends with it.
\<close>

theorem get_artist_albums_missing_title_raises:
  "fst (get_artist_albums (site_of page_no_title) [] ''80001'') = Inl AttributeError \<and>
   raised (main (site_of page_no_title) [''80001'']) = Some AttributeError \<and>
   fst (get_artist_albums (site_of page_no_markers) [] ''80001'') =
     Inr [\<lparr>album_id = ''1001'', album_title = ''A'', artist_name = ''IVE'',
           release_date = None, album_type = None, artist_id = ''80001''\<rparr>]"
  by code_simp

lemma album_row_of_complete:
  "complete_block b \<Longrightarrow> matches ''figure'' (Some ''albumInfo'') b \<Longrightarrow>
   album_row_of a b =
     Inr \<lparr>album_id = projr (get_attr b ''albumid''),
          album_title = strip [CHR 0x0A] (get_text (the (find ''div'' (Some ''albumTitle'') b))),
          artist_name = strip [CHR 0x0A] (get_text (the (find ''p'' (Some ''artist'') b))),
          release_date = find ''time'' None b,
          album_type = find ''span'' (Some ''albumType'') b,
          artist_id = a\<rparr>"
  by (cases b) (auto simp: complete_block_def album_row_of_def split: option.splits sum.splits)

lemma album_row_of_incomplete:
  "\<not> complete_block b \<Longrightarrow> matches ''figure'' (Some ''albumInfo'') b \<Longrightarrow>
   album_row_of a b = Inl KeyError \<or> album_row_of a b = Inl AttributeError"
  by (cases b) (auto simp: complete_block_def album_row_of_def split: option.splits sum.splits)

text \<open>
  What \<open>get_artist_albums\<close> does on every album list that has been fetched: it returns
  one row per album block, in order, when every block has its \<open>albumid\<close> attribute, its
  title element and its artist element, and it raises otherwise.
\<close>

lemma get_artist_albums_rows:
  assumes "fst (get_soup w reqs (artist_albums_url a)) = Inr soup"
  shows "((\<forall>b\<in>set (find_all ''figure'' (Some ''albumInfo'') soup). complete_block b) \<longrightarrow>
          fst (get_artist_albums w reqs a) =
            Inr (map (\<lambda>b.
                 \<lparr>album_id = projr (get_attr b ''albumid''),
                  album_title = strip [CHR 0x0A] (get_text (the (find ''div'' (Some ''albumTitle'') b))),
                  artist_name = strip [CHR 0x0A] (get_text (the (find ''p'' (Some ''artist'') b))),
                  release_date = find ''time'' None b,
                  album_type = find ''span'' (Some ''albumType'') b,
                  artist_id = a\<rparr>) (find_all ''figure'' (Some ''albumInfo'') soup))) \<and>
         ((\<exists>b\<in>set (find_all ''figure'' (Some ''albumInfo'') soup). \<not> complete_block b) \<longrightarrow>
          fst (get_artist_albums w reqs a) = Inl KeyError \<or>
          fst (get_artist_albums w reqs a) = Inl AttributeError)"
proof -
  let ?bs = "find_all ''figure'' (Some ''albumInfo'') soup"
  have m: "\<And>b. b \<in> set ?bs \<Longrightarrow> matches ''figure'' (Some ''albumInfo'') b"
    by (simp add: find_all_def)
  have res: "fst (get_artist_albums w reqs a) = for_each (album_row_of a) ?bs"
    using assms by (auto simp: get_artist_albums_def split: prod.splits sum.splits)
  have A: "fst (get_artist_albums w reqs a) = Inr (map (\<lambda>b. projr (album_row_of a b)) ?bs)"
    if "\<forall>b\<in>set ?bs. complete_block b"
    unfolding res using that m by (intro for_each_all_Inr) (auto simp: album_row_of_complete)
  have A': "map (\<lambda>b. projr (album_row_of a b)) ?bs = map (\<lambda>b.
                 \<lparr>album_id = projr (get_attr b ''albumid''),
                  album_title = strip [CHR 0x0A] (get_text (the (find ''div'' (Some ''albumTitle'') b))),
                  artist_name = strip [CHR 0x0A] (get_text (the (find ''p'' (Some ''artist'') b))),
                  release_date = find ''time'' None b,
                  album_type = find ''span'' (Some ''albumType'') b,
                  artist_id = a\<rparr>) ?bs"
    if "\<forall>b\<in>set ?bs. complete_block b"
    using that m by (intro map_cong refl) (simp add: album_row_of_complete)
  have B: "fst (get_artist_albums w reqs a) = Inl KeyError \<or>
          fst (get_artist_albums w reqs a) = Inl AttributeError"
    if "\<exists>b\<in>set ?bs. \<not> complete_block b"
  proof -
    from that obtain b where b: "b \<in> set ?bs" "\<not> complete_block b" by blast
    then have "\<exists>e. album_row_of a b = Inl e" using album_row_of_incomplete m by blast
    then obtain e where "for_each (album_row_of a) ?bs = Inl e"
      using for_each_some_Inl[of ?bs "album_row_of a"] b by blast
    moreover from this obtain b' where b': "b' \<in> set ?bs" "album_row_of a b' = Inl e"
      using for_each_Inl_elem by blast
    moreover have "e = KeyError \<or> e = AttributeError"
    proof (cases "complete_block b'")
      case True
      then show ?thesis using album_row_of_complete[of b' a] m[OF b'(1)] b'(2) by simp
    next
      case False
      then show ?thesis using album_row_of_incomplete[of b' a] m[OF b'(1)] b'(2) by auto
    qed
    ultimately show ?thesis unfolding res by auto
  qed
  show ?thesis using A A' B by auto
qed

text \<open>
  \<open>get_album_details\<close> never raises. It returns \<open>None\<close> when the fetch fails, when the
  thumbnail is missing, when an info table has no body, and when the info tables have
  fewer than eight cells together; otherwise it returns one row, whose genre, style,
  distributor, agency and total duration are the cells of index 2, 3, 5, 6 and 7.
\<close>

lemma get_album_details_fixed_positions:
  "fst (get_album_details w reqs a) =
     (case fst (get_soup w reqs (album_url a)) of
        Inl e \<Rightarrow> None
      | Inr soup \<Rightarrow>
         (case thumbnail_of soup of
            Inl e \<Rightarrow> None
          | Inr thumb \<Rightarrow>
             (case info_cells soup of
                Inl e \<Rightarrow> None
              | Inr cells \<Rightarrow>
                  if length cells < 8 then None
                  else Some [\<lparr>d_album_id = a, genre = cells ! 2, style = cells ! 3,
                              distributor = cells ! 5, agency = cells ! 6,
                              total_duration = cells ! 7, thumbnail = thumb\<rparr>])))"
  by (auto simp: get_album_details_def album_details_of_def item_def
           split: prod.splits sum.splits)

lemma thumbnail_of_Inr_iff:
  "thumbnail_of soup = Inr src \<longleftrightarrow>
     (\<exists>li a img. find ''li'' (Some ''big'') soup = Some li \<and> find ''a'' None li = Some a \<and>
        find ''img'' None a = Some img \<and> get_attr img ''src'' = Inr src)"
  by (auto simp: thumbnail_of_def split: option.splits)

lemma info_cells_Inr_iff:
  "(\<exists>cells. info_cells soup = Inr cells) \<longleftrightarrow>
     (\<forall>table\<in>set (find_all ''table'' (Some ''info'') soup). find ''tbody'' None table \<noteq> None)"
proof
  assume "\<exists>cells. info_cells soup = Inr cells"
  then obtain cs where "for_each table_cells (find_all ''table'' (Some ''info'') soup) = Inr cs"
    by (auto simp: info_cells_def split: sum.splits)
  from for_each_Inr_elem[OF this] show
    "\<forall>table\<in>set (find_all ''table'' (Some ''info'') soup). find ''tbody'' None table \<noteq> None"
    by (auto simp: table_cells_def split: option.splits)
next
  assume "\<forall>table\<in>set (find_all ''table'' (Some ''info'') soup). find ''tbody'' None table \<noteq> None"
  then have "\<forall>table\<in>set (find_all ''table'' (Some ''info'') soup). \<exists>y. table_cells table = Inr y"
    by (auto simp: table_cells_def split: option.splits)
  from for_each_all_Inr[OF this] show "\<exists>cells. info_cells soup = Inr cells"
    by (simp add: info_cells_def)
qed

lemma info_cells_concat:
  "info_cells soup = Inr cells \<Longrightarrow>
   cells = concat (map (\<lambda>table. map (\<lambda>cell. py_strip (get_text cell))
                     (find_all ''td'' None (the (find ''tbody'' None table))))
                   (find_all ''table'' (Some ''info'') soup))"
proof -
  assume a: "info_cells soup = Inr cells"
  let ?ts = "find_all ''table'' (Some ''info'') soup"
  from a obtain cs where cs: "for_each table_cells ?ts = Inr cs" "cells = concat cs"
    by (auto simp: info_cells_def split: sum.splits)
  have "\<forall>table\<in>set ?ts. \<exists>y. table_cells table = Inr y"
    using for_each_Inr_elem[OF cs(1)] .
  from for_each_all_Inr[OF this] cs(1) have "cs = map (\<lambda>x. projr (table_cells x)) ?ts" by simp
  also have "\<dots> = map (\<lambda>table. map (\<lambda>cell. py_strip (get_text cell))
                     (find_all ''td'' None (the (find ''tbody'' None table)))) ?ts"
    using \<open>\<forall>table\<in>set ?ts. \<exists>y. table_cells table = Inr y\<close>
    by (intro map_cong refl) (auto simp: table_cells_def split: option.splits)
  finally show ?thesis using cs(2) by simp
qed

text \<open>
  C9. On an album page with a thumbnail and eight info cells \<open>get_album_details\<close> returns
  one row, whose genre, style, distributor, agency and total duration are the cells of
  index 2, 3, 5, 6 and 7. It returns \<open>None\<close>, and does not raise, when the page has no
  thumbnail, when an info table has no body, when there are seven cells, and when the
  fetch fails. The failure is said to be confined to that album. It is not when no album
  of the run gives details: \<open>main\<close> then passes the empty list to \<open>pd.concat\<close> and ends
  with \<open>ValueError\<close> after the detail requests, so the tracks of the album, which
  \<open>get_album_tracks\<close> reads from the same page, are never fetched and nothing is written.
\<close>

theorem album_details_failure_ends_run:
  "fst (get_album_details (site_of page_album) [] ''1001'') =
     Some [\<lparr>d_album_id = ''1001'', genre = ''Dance'', style = ''Pop'', distributor = ''Kakao'',
            agency = ''Starship'', total_duration = ''09:41'',
            thumbnail = ''https://image.bugsm.co.kr/1001.jpg''\<rparr>] \<and>
   fst (get_album_details (site_of page_no_thumbnail) [] ''1001'') = None \<and>
   fst (get_album_details (site_of page_no_tbody) [] ''1001'') = None \<and>
   fst (get_album_details (site_of page_seven_cells) [] ''1001'') = None \<and>
   fst (get_album_details site_demo [] ''1003'') = None \<and>
   fst (get_album_tracks site_no_thumbnail [] ''1001'') =
     Some [\<lparr>t_album_id = ''1001'', track_id = ''31234'', track_title = ''LOVE DIVE''\<rparr>] \<and>
   raised (main site_no_thumbnail [''80001'']) = Some ValueError \<and>
   requests (main site_no_thumbnail [''80001'']) =
     [artist_albums_url ''80001'', album_url ''1001''] \<and>
   map album_id (album_clean (main site_no_thumbnail [''80001''])) = [''1001''] \<and>
   album_final (main site_no_thumbnail [''80001'']) = [] \<and>
   album_track_df (main site_no_thumbnail [''80001'']) = []"
  by code_simp

section \<open>Properties of \<open>main\<close>\<close>

lemma snd_get_soup: "snd (get_soup w reqs u) = reqs @ [u]"
  by (simp add: get_soup_def split: response.splits)

lemma snd_get_artist_albums: "snd (get_artist_albums w reqs a) = reqs @ [artist_albums_url a]"
  using snd_get_soup[of w reqs "artist_albums_url a"]
  by (auto simp: get_artist_albums_def split: prod.splits sum.splits)

lemma snd_get_album_details: "snd (get_album_details w reqs a) = reqs @ [album_url a]"
  using snd_get_soup[of w reqs "album_url a"]
  by (auto simp: get_album_details_def split: prod.splits sum.splits)

lemma snd_get_album_tracks: "snd (get_album_tracks w reqs a) = reqs @ [album_url a]"
  using snd_get_soup[of w reqs "album_url a"]
  by (auto simp: get_album_tracks_def split: prod.splits sum.splits)

lemma snd_get_track_lyrics: "snd (get_track_lyrics w reqs t) = reqs @ [track_url t]"
  using snd_get_soup[of w reqs "track_url t"]
  by (auto simp: get_track_lyrics_def split: prod.splits sum.splits)

lemma raising_loop_log:
  assumes "\<And>reqs x. snd (f reqs x) = reqs @ [u x]"
  shows "\<exists>n\<le>length xs. snd (raising_loop f reqs xs) = reqs @ map u (take n xs)"
proof (induction xs arbitrary: reqs)
  case Nil
  then show ?case by simp
next
  case (Cons x xs)
  obtain r log' where f: "f reqs x = (r, log')" by (cases "f reqs x")
  then have log': "log' = reqs @ [u x]" using assms[of reqs x] by simp
  show ?case
  proof (cases r)
    case (Inl e)
    then have "snd (raising_loop f reqs (x # xs)) = reqs @ map u (take 1 (x # xs))"
      using f log' by simp
    then show ?thesis by (intro exI[of _ 1]) simp
  next
    case (Inr y)
    from Cons.IH[of log'] obtain n where n: "n \<le> length xs"
      "snd (raising_loop f log' xs) = log' @ map u (take n xs)" by blast
    have "snd (raising_loop f reqs (x # xs)) = snd (raising_loop f log' xs)"
      using f Inr by (auto split: prod.splits sum.splits)
    then have "snd (raising_loop f reqs (x # xs)) = reqs @ map u (take (Suc n) (x # xs))"
      using n log' by simp
    then show ?thesis using n(1) by (intro exI[of _ "Suc n"]) simp
  qed
qed

lemma skipping_loop_log:
  assumes "\<And>reqs x. snd (f reqs x) = reqs @ [u x]"
  shows "snd (skipping_loop f reqs xs) = reqs @ map u xs"
proof (induction xs arbitrary: reqs)
  case Nil
  then show ?case by simp
next
  case (Cons x xs)
  obtain r log' where f: "f reqs x = (r, log')" by (cases "f reqs x")
  then have "log' = reqs @ [u x]" using assms[of reqs x] by simp
  then show ?case using f Cons.IH[of log'] by (auto split: prod.splits)
qed

lemma skipping_loop_elems:
  assumes "\<And>reqs x y. fst (f reqs x) = Some y \<Longrightarrow> P x y"
  shows "\<forall>y\<in>set (fst (skipping_loop f reqs xs)). \<exists>x\<in>set xs. P x y"
proof (induction xs arbitrary: reqs)
  case Nil
  then show ?case by simp
next
  case (Cons x xs)
  obtain r log' where f: "f reqs x = (r, log')" by (cases "f reqs x")
  show ?case
    using f Cons.IH[of log'] assms[of reqs x]
    by (auto split: prod.splits option.splits)
qed

lemma for_each_Inr_results:
  "for_each f xs = Inr ys \<Longrightarrow> \<forall>y\<in>set ys. \<exists>x\<in>set xs. f x = Inr y"
  by (induction xs arbitrary: ys) (auto split: sum.splits)

lemma track_row_of_album: "track_row_of a e = Inr t \<Longrightarrow> t_album_id t = a"
  by (auto simp: track_row_of_def split: option.splits sum.splits)

lemma get_album_tracks_album:
  assumes "fst (get_album_tracks w reqs a) = Some found"
  shows "\<forall>t\<in>set found. t_album_id t = a"
proof -
  from assms obtain soup where
    "for_each (track_row_of a) (find_all ''p'' (Some ''title'') soup) = Inr found"
    by (auto simp: get_album_tracks_def split: prod.splits sum.splits)
  from for_each_Inr_results[OF this] show ?thesis
    using track_row_of_album by blast
qed

lemma get_track_lyrics_track:
  "fst (get_track_lyrics w reqs t) = Some found \<Longrightarrow> \<forall>l\<in>set found. l_track_id l = t"
  by (auto simp: get_track_lyrics_def track_lyrics_of_def
        split: prod.splits sum.splits option.splits)

lemma pd_concat_Inr: "pd_concat fs = Inr ys \<Longrightarrow> ys = concat fs"
  by (auto simp: pd_concat_def split: list.splits)

lemma set_drop_duplicates: "set (drop_duplicates k xs) \<subseteq> set xs"
proof (induction "length xs" arbitrary: xs rule: less_induct)
  case less
  show ?case
  proof (cases xs)
    case Nil
    then show ?thesis by simp
  next
    case (Cons x xs')
    have "length (filter (\<lambda>y. k y \<noteq> k x) xs') < length xs"
      using Cons by (simp add: le_imp_less_Suc)
    from less[OF this] show ?thesis using Cons by auto
  qed
qed

lemma keys_drop_duplicates: "k ` set (drop_duplicates k xs) = k ` set xs"
proof (induction "length xs" arbitrary: xs rule: less_induct)
  case less
  show ?case
  proof (cases xs)
    case Nil
    then show ?thesis by simp
  next
    case (Cons x xs')
    have "length (filter (\<lambda>y. k y \<noteq> k x) xs') < length xs"
      using Cons by (simp add: le_imp_less_Suc)
    from less[OF this] show ?thesis using Cons by auto
  qed
qed

lemma merge_left_rows:
  assumes "(l, ro) \<in> set (merge_left kl kr left right)"
  shows "l \<in> set left \<and> (case ro of None \<Rightarrow> \<forall>r\<in>set right. kr r \<noteq> kl l
                          | Some r \<Rightarrow> r \<in> set right \<and> kr r = kl l)"
proof -
  from assms obtain l' where l': "l' \<in> set left"
    and in_rows: "(l, ro) \<in> set (case filter (\<lambda>r. kr r = kl l') right of
                     [] \<Rightarrow> [(l', None)] | rs \<Rightarrow> map (\<lambda>r. (l', Some r)) rs)"
    by (auto simp: merge_left_def)
  show ?thesis
  proof (cases "filter (\<lambda>r. kr r = kl l') right")
    case Nil
    then have "l = l'" "ro = None" using in_rows by auto
    moreover have "\<forall>r\<in>set right. kr r \<noteq> kl l'"
      using Nil by (simp add: filter_empty_conv)
    ultimately show ?thesis using l' by simp
  next
    case (Cons r rs)
    then obtain r' where "r' \<in> set (filter (\<lambda>r. kr r = kl l') right)" "l = l'" "ro = Some r'"
      using in_rows by auto
    then show ?thesis using l' by simp
  qed
qed

lemma merge_left_preserves:
  assumes "l \<in> set left"
  shows "\<exists>ro. (l, ro) \<in> set (merge_left kl kr left right)"
proof -
  let ?g = "\<lambda>l. case filter (\<lambda>r. kr r = kl l) right of
                [] \<Rightarrow> [(l, None)] | rs \<Rightarrow> map (\<lambda>r. (l, Some r)) rs"
  have "\<exists>ro. (l, ro) \<in> set (?g l)"
    by (cases "filter (\<lambda>r. kr r = kl l) right") auto
  then obtain ro where "(l, ro) \<in> set (?g l)" ..
  then have "(l, ro) \<in> set (concat (map ?g left))"
    using assms by (auto simp del: split_paired_Ex)
  then show ?thesis unfolding merge_left_def ..
qed


lemma filter_excluded:
  "filter (\<lambda>r. \<not> contains ''Various Artists'' (artist_name r))
     (filter (\<lambda>r. \<not> contains kw_japan (album_title r))
       (filter (\<lambda>r. \<not> contains '' OST'' (album_title r))
         (filter (\<lambda>r. \<not> contains kw_no_rights (album_title r)) xs))) =
   filter (\<lambda>r. \<not> excluded r) xs"
  by (induction xs) (auto simp: excluded_def)

text \<open>
  C10. Whatever the site answers and however the run ends: \<open>album_clean\<close> is the album
  table without the rows whose title contains the "no rights" marker, \<open>OST\<close> after a
  space or the "Japan" marker, or whose artist name contains \<open>Various Artists\<close>; the
  requests of the run are the album lists of the artists, then the album pages of the rows
  of \<open>album_clean\<close> (details), then the album pages of the rows of \<open>album_final\<close> (tracks),
  then the track pages of the rows of \<open>album_track_df\<close>; every row of \<open>album_final\<close> is a row
  of \<open>album_clean\<close>, every track row has the identifier of an album of \<open>album_final\<close>, and
  every lyrics row has the identifier of a track of \<open>album_track_df\<close>. So an excluded row
  reaches no table and causes no request.
\<close>

theorem main_excludes_before_fetching:
  "album_clean (main w artists) = filter (\<lambda>a. \<not> excluded a) (album_df_total (main w artists)) \<and>
   fetch_order artists (main w artists) \<and> outputs_from_clean (main w artists)"
proof -
  let ?P = "\<lambda>r. album_clean r = filter (\<lambda>a. \<not> excluded a) (album_df_total r) \<and>
                fetch_order artists r \<and> outputs_from_clean r"
  obtain res1 log1 where s1: "raising_loop (get_artist_albums w) [] artists = (res1, log1)"
    by (cases "raising_loop (get_artist_albums w) [] artists")
  obtain n where "snd (raising_loop (get_artist_albums w) [] artists) =
      [] @ map artist_albums_url (take n artists)"
    using raising_loop_log[of "get_artist_albums w" artist_albums_url artists "[]"]
      snd_get_artist_albums by blast
  then have log1: "log1 = map artist_albums_url (take n artists)" using s1 by simp
  have early: "?P (run0\<lparr>requests := log1, raised := Some e\<rparr>)" for e
    unfolding fetch_order_def outputs_from_clean_def run0_def using log1 by auto
  show ?thesis
  proof (cases res1)
    case (Inl e)
    then show ?thesis using s1 early by (simp add: main_def)
  next
    case dfs: (Inr artist_album_dfs)
    show ?thesis
    proof (cases "pd_concat artist_album_dfs")
      case (Inl e)
      then show ?thesis using s1 dfs early by (simp add: main_def)
    next
      case albums: (Inr albums)
      show ?thesis
      proof (cases "albums = []")
        case True
        then show ?thesis using s1 dfs albums early by (simp add: main_def)
      next
        case ne: False
      define cleaned where "cleaned = filter (\<lambda>a. \<not> excluded a) albums"
      define r1 where "r1 = run0\<lparr>requests := log1, album_df_total := albums, album_clean := cleaned\<rparr>"
      obtain album_details log2 where s2:
        "skipping_loop (get_album_details w) log1 (map album_id cleaned) = (album_details, log2)"
        by (cases "skipping_loop (get_album_details w) log1 (map album_id cleaned)")
      have log2: "log2 = log1 @ map album_url (map album_id cleaned)"
        using skipping_loop_log[of "get_album_details w" album_url log1 "map album_id cleaned"]
          snd_get_album_details s2 by simp
      have m1: "main w artists =
        (case pd_concat album_details of
           Inl e \<Rightarrow> r1\<lparr>requests := log2, raised := Some e\<rparr>
         | Inr detail_df \<Rightarrow>
            let merged = drop_duplicates (\<lambda>(a, d). (album_id a, album_title a))
                   (merge_left album_id d_album_id cleaned detail_df);
                r2 = r1\<lparr>requests := log2, album_detail_df := detail_df, album_final := merged\<rparr>
            in
            (case skipping_loop (get_album_tracks w) log2 (map (\<lambda>(a, d). album_id a) merged) of
              (album_tracks, log3) \<Rightarrow>
            (case pd_concat album_tracks of
               Inl e \<Rightarrow> r2\<lparr>requests := log3, raised := Some e\<rparr>
             | Inr track_df \<Rightarrow>
                let r3 = r2\<lparr>requests := log3, album_track_df := track_df\<rparr> in
                (case skipping_loop (get_track_lyrics w) log3 (map track_id track_df) of
                  (lyrics_dfs, log4) \<Rightarrow>
                (case pd_concat lyrics_dfs of
                   Inl e \<Rightarrow> r3\<lparr>requests := log4, raised := Some e\<rparr>
                 | Inr lyr_df \<Rightarrow> r3\<lparr>requests := log4, lyrics_df := lyr_df\<rparr>)))))"
        using s1 dfs albums s2 ne
        unfolding main_def Let_def filter_excluded cleaned_def r1_def by simp
      show ?thesis
      proof (cases "pd_concat album_details")
        case (Inl e)
        then have "main w artists = r1\<lparr>requests := log2, raised := Some e\<rparr>"
          using m1 by simp
        then show ?thesis
          unfolding fetch_order_def outputs_from_clean_def r1_def run0_def
          using log1 log2 cleaned_def by auto
      next
        case details: (Inr detail_df)
        define merged where "merged = drop_duplicates (\<lambda>(a, d). (album_id a, album_title a))
                   (merge_left album_id d_album_id cleaned detail_df)"
        define r2 where
          "r2 = r1\<lparr>requests := log2, album_detail_df := detail_df, album_final := merged\<rparr>"
        have merged_clean: "\<forall>(a, d)\<in>set merged. a \<in> set cleaned"
          using set_drop_duplicates[of "\<lambda>(a, d). (album_id a, album_title a)"
              "merge_left album_id d_album_id cleaned detail_df"]
            merge_left_rows[of _ _ album_id d_album_id cleaned detail_df]
          unfolding merged_def by blast
        obtain album_tracks log3 where s3:
          "skipping_loop (get_album_tracks w) log2 (map (\<lambda>(a, d). album_id a) merged) =
             (album_tracks, log3)"
          by (cases "skipping_loop (get_album_tracks w) log2 (map (\<lambda>(a, d). album_id a) merged)")
        have log3: "log3 = log2 @ map album_url (map (\<lambda>(a, d). album_id a) merged)"
          using skipping_loop_log[of "get_album_tracks w" album_url log2
              "map (\<lambda>(a, d). album_id a) merged"] snd_get_album_tracks s3 by simp
        have tracks_of: "\<forall>y\<in>set album_tracks.
            \<exists>x\<in>set (map (\<lambda>(a, d). album_id a) merged). \<forall>t\<in>set y. t_album_id t = x"
          using skipping_loop_elems[of "get_album_tracks w"
              "\<lambda>x y. \<forall>t\<in>set y. t_album_id t = x" log2 "map (\<lambda>(a, d). album_id a) merged"]
            get_album_tracks_album s3 by simp
        have m2: "main w artists =
            (case pd_concat album_tracks of
               Inl e \<Rightarrow> r2\<lparr>requests := log3, raised := Some e\<rparr>
             | Inr track_df \<Rightarrow>
                let r3 = r2\<lparr>requests := log3, album_track_df := track_df\<rparr> in
                (case skipping_loop (get_track_lyrics w) log3 (map track_id track_df) of
                  (lyrics_dfs, log4) \<Rightarrow>
                (case pd_concat lyrics_dfs of
                   Inl e \<Rightarrow> r3\<lparr>requests := log4, raised := Some e\<rparr>
                 | Inr lyr_df \<Rightarrow> r3\<lparr>requests := log4, lyrics_df := lyr_df\<rparr>)))"
          using m1 details s3 unfolding Let_def merged_def r2_def by simp
        show ?thesis
        proof (cases "pd_concat album_tracks")
          case (Inl e)
          then have "main w artists = r2\<lparr>requests := log3, raised := Some e\<rparr>"
            using m2 by simp
          then show ?thesis
            unfolding fetch_order_def outputs_from_clean_def r2_def r1_def run0_def
            using log1 log2 log3 cleaned_def merged_clean by auto
        next
          case tracks: (Inr track_df)
          define r3 where "r3 = r2\<lparr>requests := log3, album_track_df := track_df\<rparr>"
          have track_df: "track_df = concat album_tracks"
            using tracks by (rule pd_concat_Inr)
          have tracks_ok: "\<forall>t\<in>set track_df. \<exists>(a, d)\<in>set merged. t_album_id t = album_id a"
            using tracks_of unfolding track_df by fastforce
          obtain lyrics_dfs log4 where s4:
            "skipping_loop (get_track_lyrics w) log3 (map track_id track_df) = (lyrics_dfs, log4)"
            by (cases "skipping_loop (get_track_lyrics w) log3 (map track_id track_df)")
          have log4: "log4 = log3 @ map track_url (map track_id track_df)"
            using skipping_loop_log[of "get_track_lyrics w" track_url log3
                "map track_id track_df"] snd_get_track_lyrics s4 by simp
          have lyrics_of: "\<forall>y\<in>set lyrics_dfs.
              \<exists>x\<in>set (map track_id track_df). \<forall>l\<in>set y. l_track_id l = x"
            using skipping_loop_elems[of "get_track_lyrics w"
                "\<lambda>x y. \<forall>l\<in>set y. l_track_id l = x" log3 "map track_id track_df"]
              get_track_lyrics_track s4 by simp
          have m3: "main w artists =
                (case pd_concat lyrics_dfs of
                   Inl e \<Rightarrow> r3\<lparr>requests := log4, raised := Some e\<rparr>
                 | Inr lyr_df \<Rightarrow> r3\<lparr>requests := log4, lyrics_df := lyr_df\<rparr>)"
            using m2 tracks s4 unfolding Let_def r3_def by simp
          have base: "?P (r3\<lparr>requests := log4\<rparr>)"
            unfolding fetch_order_def outputs_from_clean_def r3_def r2_def r1_def run0_def
            using log1 log2 log3 log4 cleaned_def merged_clean tracks_ok by auto
          show ?thesis
          proof (cases "pd_concat lyrics_dfs")
            case (Inl e)
            then have "main w artists = r3\<lparr>requests := log4, raised := Some e\<rparr>"
              using m3 by simp
            then show ?thesis using base
              unfolding fetch_order_def outputs_from_clean_def by auto
          next
            case (Inr lyr_df)
            then have lyr: "lyr_df = concat lyrics_dfs" by (rule pd_concat_Inr)
            have "\<forall>l\<in>set lyr_df. \<exists>t\<in>set track_df. l_track_id l = track_id t"
              using lyrics_of unfolding lyr by fastforce
            moreover have "main w artists = r3\<lparr>requests := log4, lyrics_df := lyr_df\<rparr>"
              using m3 Inr by simp
            ultimately show ?thesis using base
              unfolding fetch_order_def outputs_from_clean_def r3_def by auto
          qed
        qed
      qed
      qed
    qed
  qed
qed


theorem main_excludes_before_fetching_witness:
  "album_clean (main site_demo [''80001'']) =
     [\<lparr>album_id = ''1001'', album_title = ''LOVE DIVE'', artist_name = ''IVE'',
       release_date = None, album_type = None, artist_id = ''80001''\<rparr>] \<and>
   map album_title (album_df_total (main site_demo [''80001''])) = [''LOVE DIVE'', ''Drama OST''] \<and>
   requests (main site_demo [''80001'']) =
     [artist_albums_url ''80001'', album_url ''1001'', album_url ''1001'', track_url ''31234''] \<and>
   fetch_order [''80001''] (main site_demo [''80001'']) \<and>
   outputs_from_clean (main site_demo [''80001''])"
proof -
  have "album_clean (main site_demo [''80001'']) =
     [\<lparr>album_id = ''1001'', album_title = ''LOVE DIVE'', artist_name = ''IVE'',
       release_date = None, album_type = None, artist_id = ''80001''\<rparr>]"
    by code_simp
  moreover have
    "map album_title (album_df_total (main site_demo [''80001''])) = [''LOVE DIVE'', ''Drama OST'']"
    by code_simp
  moreover have "requests (main site_demo [''80001'']) =
     [artist_albums_url ''80001'', album_url ''1001'', album_url ''1001'', track_url ''31234'']"
    by code_simp
  ultimately show ?thesis
    using main_excludes_before_fetching[of site_demo "[''80001'']"] by simp
qed

text \<open>
  C3. A fetch failure is said to cost the record of one identifier and never the run. In
  step 1 nothing catches the exception of \<open>get_artist_albums\<close>: when the album list of
  the first artist answers 404, \<open>main\<close> ends with \<open>HTTPError\<close> after that one request,
  although the second artist alone gives a complete run. And when every album page of a
  step fails, \<open>pd.concat\<close> of the empty list ends \<open>main\<close> with \<open>ValueError\<close>.
\<close>

theorem main_aborted_by_fetch_failure:
  "raised (main site_demo [''80002'', ''80001'']) = Some HTTPError \<and>
   requests (main site_demo [''80002'', ''80001'']) = [artist_albums_url ''80002''] \<and>
   raised (main site_demo [''80001'']) = None \<and>
   raised (main site_albums_down [''80001'']) = Some ValueError"
  by code_simp

section \<open>Properties of the cleaner\<close>

lemma map_of_set_dtype: "map_of (set_dtype c d cs) c = Some d"
proof (cases "c \<in> set (map fst cs)")
  case True
  then have "map_of (map (\<lambda>(n, t). if n = c then (n, d) else (n, t)) cs) c = Some d"
    by (induction cs) auto
  then show ?thesis using True by (simp add: set_dtype_def)
next
  case False
  then have "map_of cs c = None" by (simp add: map_of_eq_None_iff)
  then show ?thesis using False by (simp add: set_dtype_def map_add_def)
qed

lemma map_of_set_dtype_other: "c' \<noteq> c \<Longrightarrow> map_of (set_dtype c d cs) c' = map_of cs c'"
proof (cases "c \<in> set (map fst cs)")
  case True
  assume "c' \<noteq> c"
  then have "map_of (map (\<lambda>(n, t). if n = c then (n, d) else (n, t)) cs) c' = map_of cs c'"
    by (induction cs) auto
  then show ?thesis using True by (simp add: set_dtype_def)
next
  case False
  assume "c' \<noteq> c"
  then show ?thesis using False by (simp add: set_dtype_def map_add_def split: option.splits)
qed

lemma dtype_of_assign: "dtype_of (assign df c d g) c = Some d"
  by (simp add: dtype_of_def assign_def map_of_set_dtype)

lemma rows_assign: "rows (assign df c d g) = map (\<lambda>r. r(c := g r)) (rows df)"
  by (simp add: assign_def)

lemma rows_select: "rows (select keep df) = filter keep (rows df)"
  by (simp add: select_def)

lemma clean_track_ids_sentinel_absent:
  assumes "clean_track_ids pd t = Inr t'" and "r' \<in> set (rows t')"
  shows "\<exists>r\<in>set (rows t). \<not> str_contains ''howLoginLayer'' (r ''track_id'') \<and>
           (\<forall>c. c \<noteq> ''track_id'' \<longrightarrow> r' c = r c)"
proof -
  let ?bad = "\<lambda>r. str_contains ''howLoginLayer'' (r ''track_id'')"
  define df1 where "df1 = (if rows (select ?bad t) \<noteq> []
                         then select (\<lambda>r. \<not> ?bad r) t else t)"
  have df1: "\<forall>r\<in>set (rows df1). r \<in> set (rows t) \<and> \<not> ?bad r"
    unfolding df1_def by (auto simp: rows_select filter_empty_conv)
  define df3 where "df3 = dropna (to_numeric_col pd df1 ''track_id'') ''track_id''"
  have df3: "\<forall>r3\<in>set (rows df3). \<exists>r\<in>set (rows df1). \<forall>c. c \<noteq> ''track_id'' \<longrightarrow> r3 c = r c"
    unfolding df3_def dropna_def to_numeric_col_def Let_def
    by (auto simp: rows_select rows_assign)
  have "\<exists>g d. t' = assign df3 ''track_id'' d g"
    using assms(1) unfolding clean_track_ids_def Let_def df3_def df1_def
    by (auto split: option.splits if_splits)
  then obtain g d where "t' = assign df3 ''track_id'' d g" by blast
  then obtain r3 where "r3 \<in> set (rows df3)" "r' = r3(''track_id'' := g r3)"
    using assms(2) by (auto simp: rows_assign)
  then show ?thesis using df1 df3 by fastforce
qed

lemma clean_track_ids_on_int64:
  "dtype_of t ''track_id'' = Some Int64 \<Longrightarrow> clean_track_ids pd t = Inl AttributeError"
  by (simp add: clean_track_ids_def)

text \<open>
  C1. Cleaning removes every row whose \<open>track_id\<close> contains \<open>howLoginLayer\<close>
  (lemma \<open>clean_track_ids_sentinel_absent\<close>), but it is not idempotent: a cleaned table
  has an \<open>int64\<close> \<open>track_id\<close> column, on which the \<open>.str\<close> accessor of the first
  statement raises \<open>AttributeError\<close>.
\<close>

lemmas demo_defs = clean_track_ids_def tracks_raw_def pd_demo_def dtype_of_def select_def
  str_contains_def contains_def has_col_def to_numeric_col_def to_numeric_dtype_def
  to_numeric_cell_def is_int_lit_def dec_literal_def column_def assign_def set_dtype_def
  dropna_def is_finite_def astype_int64_def track_row3_def truncate_def the_dtype_def
  wrap64_def

theorem clean_track_ids_not_idempotent:
  "\<not> isl (clean_track_ids pd_demo tracks_raw) \<and>
   column (projr (clean_track_ids pd_demo tracks_raw)) ''track_id'' = [Num 31234] \<and>
   dtype_of (projr (clean_track_ids pd_demo tracks_raw)) ''track_id'' = Some Int64 \<and>
   clean_track_ids pd_demo (projr (clean_track_ids pd_demo tracks_raw)) = Inl AttributeError"
proof -
  have "\<not> isl (clean_track_ids pd_demo tracks_raw)"
    by (simp add: demo_defs Let_def sublist_code)
  moreover have "column (projr (clean_track_ids pd_demo tracks_raw)) ''track_id'' = [Num 31234]"
    by (simp add: demo_defs Let_def sublist_code)
  moreover have d: "dtype_of (projr (clean_track_ids pd_demo tracks_raw)) ''track_id'' = Some Int64"
    by (simp add: demo_defs Let_def sublist_code)
  ultimately show ?thesis
    using clean_track_ids_on_int64[OF d] by simp
qed

subsection \<open>The filter\<close>

lemma select_cong: "(\<And>r. keep r = keep' r) \<Longrightarrow> select keep df = select keep' df"
  by (simp add: select_def cong: filter_cong)

lemma columns_select: "columns (select keep df) = columns df"
  by (simp add: select_def)

lemma apply_step_shape:
  "apply_step st df =
     (if has_col df (step_column st)
      then if step_raises df st then Inl AttributeError else Inr (select (step_keep st) df)
      else Inr df)"
  by (cases st)
     (auto simp: drop_various_artists_def drop_empty_lyrics_def drop_album_titles_def
        drop_track_titles_def str_column_def step_raises_def intro!: select_cong)

lemma step_raises_select: "step_raises (select keep df) st = step_raises df st"
  by (simp add: step_raises_def select_def has_col_def dtype_of_def)

lemma has_col_select: "has_col (select keep df) c = has_col df c"
  by (simp add: select_def has_col_def)

lemma run_steps_Inl:
  "run_steps sts df = Inl e \<Longrightarrow> e = AttributeError \<and> (\<exists>st\<in>set sts. step_raises df st)"
proof (induction sts arbitrary: df)
  case Nil
  then show ?case by simp
next
  case (Cons st sts)
  show ?case
  proof (cases "apply_step st df")
    case (Inl e')
    then show ?thesis using Cons.prems
      by (auto simp: apply_step_shape split: if_splits)
  next
    case (Inr df')
    then have df': "df' = df \<or> df' = select (step_keep st) df"
      by (auto simp: apply_step_shape split: if_splits)
    have "run_steps sts df' = Inl e" using Cons.prems Inr by simp
    from Cons.IH[OF this] show ?thesis using df' by (auto simp: step_raises_select)
  qed
qed

lemma run_steps_Inr:
  "run_steps sts df = Inr out \<Longrightarrow>
     columns out = columns df \<and>
     rows out = filter (\<lambda>r. \<forall>st\<in>set sts. has_col df (step_column st) \<longrightarrow> step_keep st r) (rows df) \<and>
     (\<forall>st\<in>set sts. \<not> step_raises df st)"
proof (induction sts arbitrary: df)
  case Nil
  then show ?case by simp
next
  case (Cons st sts)
  from Cons.prems obtain df' where a: "apply_step st df = Inr df'" and r: "run_steps sts df' = Inr out"
    by (auto split: sum.splits)
  note ih = Cons.IH[OF r]
  show ?case
  proof (cases "has_col df (step_column st)")
    case True
    then have df': "df' = select (step_keep st) df" and nr: "\<not> step_raises df st"
      using a by (auto simp: apply_step_shape split: if_splits)
    have "rows out = filter (\<lambda>r. \<forall>st\<in>set sts. has_col df (step_column st) \<longrightarrow> step_keep st r)
             (filter (step_keep st) (rows df))"
      using ih unfolding df' has_col_select by (simp add: rows_select)
    also have "\<dots> = filter (\<lambda>r. \<forall>s\<in>set (st # sts). has_col df (step_column s) \<longrightarrow> step_keep s r)
             (rows df)"
      using True by (auto intro: filter_cong)
    finally show ?thesis using ih nr unfolding df'
      by (simp add: step_raises_select columns_select)
  next
    case False
    then have df': "df' = df" using a by (auto simp: apply_step_shape)
    have nr: "\<not> step_raises df st" using False by (simp add: step_raises_def)
    have "filter (\<lambda>r. \<forall>st\<in>set sts. has_col df (step_column st) \<longrightarrow> step_keep st r) (rows df) =
          filter (\<lambda>r. \<forall>s\<in>set (st # sts). has_col df (step_column s) \<longrightarrow> step_keep s r) (rows df)"
      using False by (auto intro: filter_cong)
    then show ?thesis using ih nr unfolding df' by simp
  qed
qed

lemma run_steps_char:
  "run_steps sts df =
     (if \<exists>st\<in>set sts. step_raises df st then Inl AttributeError
      else Inr (select (\<lambda>r. \<forall>st\<in>set sts. has_col df (step_column st) \<longrightarrow> step_keep st r) df))"
proof (cases "run_steps sts df")
  case (Inl e)
  from run_steps_Inl[OF this] show ?thesis using Inl by simp
next
  case (Inr out)
  from run_steps_Inr[OF this] have
    c: "columns out = columns df" and
    r: "rows out = filter (\<lambda>r. \<forall>st\<in>set sts. has_col df (step_column st) \<longrightarrow> step_keep st r) (rows df)" and
    n: "\<not> (\<exists>st\<in>set sts. step_raises df st)"
    by blast+
  have "out = select (\<lambda>r. \<forall>st\<in>set sts. has_col df (step_column st) \<longrightarrow> step_keep st r) df"
    using c r by (cases out) (simp add: select_def)
  then show ?thesis using Inr n by simp
qed

lemma run_steps_set:
  assumes "set sts = set sts'"
  shows "run_steps sts df = run_steps sts' df"
  unfolding run_steps_char assms ..

lemma filter_data_run_steps:
  "filter_data df = run_steps [VariousArtists, EmptyLyrics, AlbumTitles, TrackTitles] df"
  unfolding filter_data_def by (simp split: sum.splits)
text \<open>
  C7. \<open>filter_data\<close> only removes rows: the table it returns has the columns of its
  input, and its rows are the rows of the input that pass the removals of the columns
  that the table has, in their order and unchanged. And the four removals, taken in any
  order, give the result of \<open>filter_data\<close>: the same table, or the same exception when a
  lyrics or title column is not a string column.
\<close>

theorem filter_data_monotonic_any_order:
  "(\<forall>out. filter_data df = Inr out \<longrightarrow>
      columns out = columns df \<and> subseq (rows out) (rows df) \<and>
      rows out = filter (\<lambda>r. \<forall>st\<in>set [VariousArtists, EmptyLyrics, AlbumTitles, TrackTitles].
                              has_col df (step_column st) \<longrightarrow> step_keep st r) (rows df)) \<and>
   (\<forall>sts. mset sts = mset [VariousArtists, EmptyLyrics, AlbumTitles, TrackTitles] \<longrightarrow>
      run_steps sts df = filter_data df)"
proof (intro conjI allI impI)
  fix out assume "filter_data df = Inr out"
  then have "run_steps [VariousArtists, EmptyLyrics, AlbumTitles, TrackTitles] df = Inr out"
    by (simp add: filter_data_run_steps)
  note o = run_steps_Inr[OF this]
  from o show "columns out = columns df" by blast
  from o show r: "rows out = filter (\<lambda>r. \<forall>st\<in>set [VariousArtists, EmptyLyrics, AlbumTitles, TrackTitles].
                              has_col df (step_column st) \<longrightarrow> step_keep st r) (rows df)"
    by blast
  show "subseq (rows out) (rows df)" unfolding r by (rule subseq_filter_left)
next
  fix sts assume "mset sts = mset [VariousArtists, EmptyLyrics, AlbumTitles, TrackTitles]"
  then have "set sts = set [VariousArtists, EmptyLyrics, AlbumTitles, TrackTitles]"
    by (rule mset_eq_setD)
  then show "run_steps sts df = filter_data df"
    unfolding filter_data_run_steps by (rule run_steps_set)
qed
lemmas filter_demo_defs = merged_demo_def row4_def drop_various_artists_def
  drop_empty_lyrics_def drop_album_titles_def drop_track_titles_def str_column_def
  select_def has_col_def dtype_of_def str_contains_ci_def re_search_ci_def
  album_patterns_def song_patterns_def kw_japan_def kw_no_rights_def ci_alts_def
  ascii_lower_def ascii_upper_def py_strip_def whitespace_def column_def

lemma filter_data_merged_demo:
  "filter_data merged_demo =
     Inr \<lparr>columns = columns merged_demo, rows = [row4 ''Up'' ''IVE'' ''Go'' ''la'']\<rparr>"
  by (simp add: filter_data_def filter_demo_defs Let_def)
theorem filter_data_monotonic_any_order_witness:
  "filter_data merged_demo =
     Inr \<lparr>columns = columns merged_demo, rows = [row4 ''Up'' ''IVE'' ''Go'' ''la'']\<rparr> \<and>
   run_steps [TrackTitles, AlbumTitles, EmptyLyrics, VariousArtists] merged_demo =
     filter_data merged_demo \<and>
   subseq [row4 ''Up'' ''IVE'' ''Go'' ''la''] (rows merged_demo) \<and>
   length (rows merged_demo) = 5"
proof -
  note t = filter_data_monotonic_any_order[of merged_demo]
  have m: "mset [TrackTitles, AlbumTitles, EmptyLyrics, VariousArtists] =
        mset [VariousArtists, EmptyLyrics, AlbumTitles, TrackTitles]"
    by simp
  have 1: "run_steps [TrackTitles, AlbumTitles, EmptyLyrics, VariousArtists] merged_demo =
     filter_data merged_demo"
    using t m by blast
  have 2: "subseq [row4 ''Up'' ''IVE'' ''Go'' ''la''] (rows merged_demo)"
    using t filter_data_merged_demo by fastforce
  show ?thesis using 1 2 filter_data_merged_demo by (simp add: merged_demo_def)
qed

end
